theory Spec2Isabelle
  imports Complex_Main "HOL-Library.Sublist"
begin

section \<open>Text\<close>

text \<open>
  A Python \<open>str\<close> is a sequence of Unicode code points, and \<open>len\<close> counts code points.
  The markers the scraper looks for are Cyrillic, so a text is modelled as a list of code
  points; \<open>lit\<close> embeds an ASCII literal.
\<close>

type_synonym str = "nat list"

definition lit :: "string \<Rightarrow> str" where
  "lit s = map of_char s"

text \<open>The sentinel the scraper writes for a missing value: \<open>"N/A"\<close>.\<close>

definition NA :: str where
  "NA = lit ''N/A''"

section \<open>Floats\<close>

text \<open>
  A Python \<open>float\<close> is an IEEE double: a finite value (kept as the number it denotes),
  an infinity or a NaN. The sign of zero is not modelled.
\<close>

datatype pyfloat = Fin real | PInf | NInf | NaN

text \<open>Python's \<open><\<close> and \<open><=\<close> on floats: every comparison with a NaN is false.\<close>

fun flt :: "pyfloat \<Rightarrow> pyfloat \<Rightarrow> bool" where
  "flt NaN _ = False"
| "flt _ NaN = False"
| "flt (Fin a) (Fin b) = (a < b)"
| "flt (Fin _) PInf = True"
| "flt (Fin _) NInf = False"
| "flt PInf _ = False"
| "flt NInf NInf = False"
| "flt NInf _ = True"

fun fle :: "pyfloat \<Rightarrow> pyfloat \<Rightarrow> bool" where
  "fle NaN _ = False"
| "fle _ NaN = False"
| "fle (Fin a) (Fin b) = (a \<le> b)"
| "fle (Fin _) PInf = True"
| "fle (Fin _) NInf = False"
| "fle PInf PInf = True"
| "fle PInf _ = False"
| "fle NInf _ = True"

definition is_nan :: "pyfloat \<Rightarrow> bool" where
  "is_nan x = (case x of NaN \<Rightarrow> True | _ \<Rightarrow> False)"

definition is_finite :: "pyfloat \<Rightarrow> bool" where
  "is_finite x = (case x of Fin _ \<Rightarrow> True | _ \<Rightarrow> False)"

section \<open>Bond records\<close>

text \<open>
  The dictionary built at the end of each row of \<open>get_top_yield_bonds\<close>. The first six keys
  are always set; \<open>'Years to Offer'\<close> and \<open>'Years to Offer Str'\<close> are set only for a
  future offer date, so they are optional here.
\<close>

record bond =
  ISIN :: str
  Name :: str
  Yield_to_Maturity :: pyfloat
  Rating :: str
  Maturity :: str
  Offer_Date :: str
  Years_to_Offer :: "pyfloat option"
  Years_to_Offer_Str :: "str option"

section \<open>Ranking (top_bonds.py, lines 212-216)\<close>

text \<open>
  \<open>sorted(bonds_list, key=..., reverse=True)\<close>: CPython reverses the list, sorts it
  ascending and stably with \<open><\<close> alone, and reverses the result. The ascending sort is
  modelled as insertion sort: each element moves left past the elements of the sorted
  prefix that it is less than. The prefix is held last element first, so that this scan
  from its right end is a structural recursion. On keys without NaN every stable sort
  computes the same list.
\<close>

fun insort_lt :: "('a \<Rightarrow> pyfloat) \<Rightarrow> 'a \<Rightarrow> 'a list \<Rightarrow> 'a list" where
  "insort_lt key x [] = [x]"
| "insort_lt key x (y # ys) =
     (if flt (key x) (key y) then y # insort_lt key x ys else x # y # ys)"

definition sort_stable :: "('a \<Rightarrow> pyfloat) \<Rightarrow> 'a list \<Rightarrow> 'a list" where
  "sort_stable key xs = rev (foldl (\<lambda>acc x. insort_lt key x acc) [] xs)"

definition sorted_reverse :: "('a \<Rightarrow> pyfloat) \<Rightarrow> 'a list \<Rightarrow> 'a list" where
  "sorted_reverse key xs = rev (sort_stable key (rev xs))"

text \<open>
  The slice \<open>xs[:count]\<close>: a negative \<open>count\<close> counts from the end, and nothing
  is raised.
\<close>

definition slice_to :: "int \<Rightarrow> 'a list \<Rightarrow> 'a list" where
  "slice_to count xs =
     (if 0 \<le> count then take (nat count) xs
      else take (length xs - nat (- count)) xs)"

definition rank :: "bond list \<Rightarrow> int \<Rightarrow> bond list" where
  "rank bonds_list count = slice_to count (sorted_reverse Yield_to_Maturity bonds_list)"

section \<open>Cache (telegram_bonds_bot.py, get_bonds_data)\<close>

text \<open>
  The two module globals, both \<open>None\<close> at start. The clock reading is a parameter.
  What \<open>top_bonds.get_top_yield_bonds\<close> does on a call is a parameter too: it returns a
  list or \<open>None\<close>, or raises. The third component of the result lists the arguments of
  the fetches made during the call.
\<close>

record cache =
  last_fetch_time :: "rat option"
  last_bonds_data :: "bond list option"

datatype fetch_outcome = Raises | Returns "bond list option"

text \<open>
  \<open>last_fetch_time and last_bonds_data and current_time - last_fetch_time < 3600\<close>, then
  \<open>len(last_bonds_data) >= count\<close>. Python's truth test of a float is \<open>!= 0\<close>, of a list
  non-emptiness.
\<close>

definition cache_hit :: "cache \<Rightarrow> rat \<Rightarrow> int \<Rightarrow> bool" where
  "cache_hit c current_time count =
     (case last_fetch_time c of
        None \<Rightarrow> False
      | Some t \<Rightarrow>
          (case last_bonds_data c of
             None \<Rightarrow> False
           | Some bonds \<Rightarrow>
               t \<noteq> 0 \<and> bonds \<noteq> [] \<and> current_time - t < 3600
               \<and> count \<le> int (length bonds)))"

definition fetch_count :: "int \<Rightarrow> int" where
  "fetch_count count = min (max count 5) 20"

definition get_bonds_data ::
  "(int \<Rightarrow> fetch_outcome) \<Rightarrow> rat \<Rightarrow> int \<Rightarrow> cache \<Rightarrow> bond list option \<times> cache \<times> int list" where
  "get_bonds_data fetcher current_time count c =
     (if cache_hit c current_time count
      then (map_option (slice_to count) (last_bonds_data c), c, [])
      else
        (case fetcher (fetch_count count) of
           Raises \<Rightarrow> (None, c, [fetch_count count])
         | Returns None \<Rightarrow> (None, c, [fetch_count count])
         | Returns (Some bonds) \<Rightarrow>
             (if bonds \<noteq> []
              then (Some (slice_to count bonds),
                    \<lparr>last_fetch_time = Some current_time, last_bonds_data = Some bonds\<rparr>,
                    [fetch_count count])
              else (None, c, [fetch_count count]))))"

section \<open>Number formatting\<close>

text \<open>
  \<open>"{:.nf}".format(x)\<close>: the decimal expansion of the double's exact value, correctly
  rounded (ties to even) to \<open>n\<close> places; \<open>inf\<close>, \<open>-inf\<close> and \<open>nan\<close> are spelt out.
\<close>

fun digits_of :: "nat \<Rightarrow> str" where
  "digits_of n = (if n < 10 then [48 + n] else digits_of (n div 10) @ [48 + n mod 10])"

declare digits_of.simps [simp del]

definition round_half_even :: "real \<Rightarrow> int" where
  "round_half_even x =
     (let f = \<lfloor>x\<rfloor>; d = x - of_int f
      in if d < 1 / 2 then f
         else if 1 / 2 < d then f + 1
         else if even f then f else f + 1)"

definition fmt_fixed :: "nat \<Rightarrow> pyfloat \<Rightarrow> str" where
  "fmt_fixed n x =
     (case x of
        NaN \<Rightarrow> lit ''nan''
      | PInf \<Rightarrow> lit ''inf''
      | NInf \<Rightarrow> lit ''-inf''
      | Fin r \<Rightarrow>
          (let m = nat (round_half_even (\<bar>r\<bar> * 10 ^ n));
               ip = digits_of (m div 10 ^ n);
               fp = digits_of (m mod 10 ^ n)
           in (if r < 0 then lit ''-'' else []) @ ip
              @ (if n = 0 then [] else lit ''.'' @ replicate (n - length fp) 48 @ fp)))"

section \<open>Plain table (top_bonds.py print_table, bonds_scheduler.py get_bonds_data)\<close>

text \<open>
  The column keys of the two tables. \<open>label\<close> is the key itself, which is also the
  header text.
\<close>

datatype column =
  Col_ISIN | Col_Name | Col_Yield | Col_Rating | Col_Maturity | Col_Offer_Date
  | Col_Years_to_Offer_Str

fun label :: "column \<Rightarrow> str" where
  "label Col_ISIN = lit ''ISIN''"
| "label Col_Name = lit ''Name''"
| "label Col_Yield = lit ''Yield to Maturity''"
| "label Col_Rating = lit ''Rating''"
| "label Col_Maturity = lit ''Maturity''"
| "label Col_Offer_Date = lit ''Offer Date''"
| "label Col_Years_to_Offer_Str = lit ''Years to Offer Str''"

definition print_table_columns :: "column list" where
  "print_table_columns =
     [Col_ISIN, Col_Name, Col_Yield, Col_Rating, Col_Maturity, Col_Offer_Date,
      Col_Years_to_Offer_Str]"

definition scheduler_columns :: "column list" where
  "scheduler_columns = [Col_ISIN, Col_Name, Col_Yield, Col_Rating, Col_Maturity]"

text \<open>
  The text of a value under a key, \<open>None\<close> when the key is not in the record: the yield
  goes through \<open>"{:.2f}%".format\<close>, a string is its own \<open>str\<close>.
\<close>

fun cell_text :: "column \<Rightarrow> bond \<Rightarrow> str option" where
  "cell_text Col_ISIN item = Some (ISIN item)"
| "cell_text Col_Name item = Some (Name item)"
| "cell_text Col_Yield item = Some (fmt_fixed 2 (Yield_to_Maturity item) @ lit ''%'')"
| "cell_text Col_Rating item = Some (Rating item)"
| "cell_text Col_Maturity item = Some (Maturity item)"
| "cell_text Col_Offer_Date item = Some (Offer_Date item)"
| "cell_text Col_Years_to_Offer_Str item = Years_to_Offer_Str item"

text \<open>
  The width loop: \<open>widths = {col: len(col)}\<close>, then for each item and each column that
  the item has, \<open>widths[col] = max(widths[col], len(value_str))\<close>.
\<close>

definition widen :: "bond \<Rightarrow> column \<Rightarrow> (column \<Rightarrow> nat) \<Rightarrow> (column \<Rightarrow> nat)" where
  "widen item col widths =
     (case cell_text col item of
        None \<Rightarrow> widths
      | Some value_str \<Rightarrow> widths(col := max (widths col) (length value_str)))"

definition column_widths :: "column list \<Rightarrow> bond list \<Rightarrow> column \<Rightarrow> nat" where
  "column_widths columns data =
     fold (\<lambda>item widths. fold (widen item) columns widths) data (\<lambda>col. length (label col))"

text \<open>The row loop: \<open>item.get(col, "N/A")\<close>, then \<open>value_str.ljust(widths[col])\<close>.\<close>

definition rendered :: "column \<Rightarrow> bond \<Rightarrow> str" where
  "rendered col item = (case cell_text col item of None \<Rightarrow> NA | Some value_str \<Rightarrow> value_str)"

definition ljust :: "nat \<Rightarrow> str \<Rightarrow> str" where
  "ljust width s = s @ replicate (width - length s) 32"

fun join :: "str \<Rightarrow> str list \<Rightarrow> str" where
  "join sep [] = []"
| "join sep [x] = x"
| "join sep (x # y # ys) = x @ sep @ join sep (y # ys)"

definition header_line :: "column list \<Rightarrow> bond list \<Rightarrow> str" where
  "header_line columns data =
     join (lit '' | '') (map (\<lambda>col. ljust (column_widths columns data col) (label col)) columns)"

definition row_line :: "column list \<Rightarrow> bond list \<Rightarrow> bond \<Rightarrow> str" where
  "row_line columns data item =
     join (lit '' | '')
       (map (\<lambda>col. ljust (column_widths columns data col) (rendered col item)) columns)"

definition table_lines :: "column list \<Rightarrow> bond list \<Rightarrow> str list" where
  "table_lines columns data =
     header_line columns data
     # replicate (length (header_line columns data)) 45
     # map (row_line columns data) data"

text \<open>The lines \<open>print_table\<close> prints.\<close>

definition print_table :: "bond list \<Rightarrow> str list" where
  "print_table data =
     (if data = [] then [lit ''No data to display.'']
      else table_lines print_table_columns data)"

text \<open>
  The table inside the report of \<open>bonds_scheduler.get_bonds_data\<close> (lines 23-52), the same
  loops over five columns. The title, the source line and the time stamp around it are
  left out.
\<close>

definition scheduler_table :: "bond list \<Rightarrow> str list" where
  "scheduler_table bonds = table_lines scheduler_columns bonds"

section \<open>String operations\<close>

text \<open>
  \<open>str.strip()\<close> removes the characters for which \<open>str.isspace()\<close> holds; the regular
  expression class \<open>\s\<close> on a \<open>str\<close> pattern is the same set.
\<close>

definition isspace :: "nat \<Rightarrow> bool" where
  "isspace c =
     ((9 \<le> c \<and> c \<le> 13) \<or> (28 \<le> c \<and> c \<le> 32) \<or> c = 133 \<or> c = 160 \<or> c = 5760
      \<or> (8192 \<le> c \<and> c \<le> 8202) \<or> c = 8232 \<or> c = 8233 \<or> c = 8239 \<or> c = 8287
      \<or> c = 12288)"

definition strip :: "str \<Rightarrow> str" where
  "strip s = rev (dropWhile isspace (rev (dropWhile isspace s)))"

text \<open>\<open>s.replace(a, b)\<close> for a single character \<open>a\<close> and a text \<open>b\<close>.\<close>

definition replace :: "nat \<Rightarrow> str \<Rightarrow> str \<Rightarrow> str" where
  "replace a b s = concat (map (\<lambda>c. if c = a then b else [c]) s)"

text \<open>\<open>s.split(sep)\<close> for a single character \<open>sep\<close>: always at least one part.\<close>

fun split :: "nat \<Rightarrow> str \<Rightarrow> str list" where
  "split sep [] = [[]]"
| "split sep (c # cs) =
     (if c = sep then [] # split sep cs
      else (case split sep cs of [] \<Rightarrow> [[c]] | p # ps \<Rightarrow> (c # p) # ps))"

text \<open>\<open>sub in s\<close>.\<close>

fun starts_with :: "str \<Rightarrow> str \<Rightarrow> bool" where
  "starts_with [] s = True"
| "starts_with (p # ps) [] = False"
| "starts_with (p # ps) (c # cs) = (p = c \<and> starts_with ps cs)"

fun contains :: "str \<Rightarrow> str \<Rightarrow> bool" where
  "contains sub [] = (sub = [])"
| "contains sub (c # cs) = (starts_with sub (c # cs) \<or> contains sub cs)"

text \<open>\<open>next((i for i, h in enumerate(xs) if P(h)), None)\<close>.\<close>

fun first_index :: "('a \<Rightarrow> bool) \<Rightarrow> 'a list \<Rightarrow> nat option" where
  "first_index P [] = None"
| "first_index P (x # xs) = (if P x then Some 0 else map_option Suc (first_index P xs))"

section \<open>Regular expressions\<close>

text \<open>
  The patterns of the scraper are sequences of five kinds of item: a literal, a greedy
  \<open>[class]*\<close>, a greedy \<open>[class]+\<close>, the lazy \<open>.*?\<close> (with \<open>re.DOTALL\<close>, so any
  character), and a group boundary. \<open>rmatch\<close> is the backtracking matcher at a fixed
  start: a greedy item first tries to take one more character, the lazy item first tries
  to stop, and the first success is the match, as in Python's \<open>re\<close>. The result holds the
  remaining text at each group boundary, in pattern order, and the text after the match.
\<close>

datatype rx = Lit str | Star "nat \<Rightarrow> bool" | Plus "nat \<Rightarrow> bool" | Lazy_Any | Mark

function rmatch :: "rx list \<Rightarrow> str \<Rightarrow> (str list \<times> str) option" where
  "rmatch [] s = Some ([], s)"
| "rmatch (Lit l # p) s =
     (if starts_with l s then rmatch p (drop (length l) s) else None)"
| "rmatch (Star cls # p) [] = rmatch p []"
| "rmatch (Star cls # p) (c # cs) =
     (if cls c
      then (case rmatch (Star cls # p) cs of Some m \<Rightarrow> Some m | None \<Rightarrow> rmatch p (c # cs))
      else rmatch p (c # cs))"
| "rmatch (Plus cls # p) [] = None"
| "rmatch (Plus cls # p) (c # cs) = (if cls c then rmatch (Star cls # p) cs else None)"
| "rmatch (Lazy_Any # p) [] = rmatch p []"
| "rmatch (Lazy_Any # p) (c # cs) =
     (case rmatch p (c # cs) of Some m \<Rightarrow> Some m | None \<Rightarrow> rmatch (Lazy_Any # p) cs)"
| "rmatch (Mark # p) s =
     (case rmatch p s of Some (marks, rest) \<Rightarrow> Some (s # marks, rest) | None \<Rightarrow> None)"
  by pat_completeness auto
termination
  by (relation "measure (\<lambda>(p, s). length p + 2 * length s)") auto

text \<open>\<open>re.search\<close>: the match at the leftmost start that has one.\<close>

fun rsearch :: "rx list \<Rightarrow> str \<Rightarrow> (str list \<times> str) option" where
  "rsearch p [] = rmatch p []"
| "rsearch p (c # cs) =
     (case rmatch p (c # cs) of Some m \<Rightarrow> Some m | None \<Rightarrow> rsearch p cs)"

text \<open>The text of the first and of the second group of a match.\<close>

fun group1 :: "str list \<Rightarrow> str" where
  "group1 (a # b # marks) = take (length a - length b) a"
| "group1 marks = []"

fun group2 :: "str list \<Rightarrow> str" where
  "group2 (a # b # marks) = group1 marks"
| "group2 marks = []"

text \<open>
  \<open>re.findall\<close> for a pattern with one group: the group of each match, the search going
  on after the match. No pattern of the scraper matches the empty text, so a match always
  consumes something; the test of that is what makes the recursion terminate.
\<close>

fun findall :: "rx list \<Rightarrow> str \<Rightarrow> str list" where
  "findall p s =
     (case rsearch p s of
        None \<Rightarrow> []
      | Some (marks, rest) \<Rightarrow>
          group1 marks # (if length rest < length s then findall p rest else []))"

declare findall.simps [simp del]

text \<open>\<open>re.sub(p, '', s)\<close>: every match removed, scanning from the left.\<close>

fun remove_all :: "rx list \<Rightarrow> str \<Rightarrow> str" where
  "remove_all p [] = []"
| "remove_all p (c # cs) =
     (case rmatch p (c # cs) of
        None \<Rightarrow> c # remove_all p cs
      | Some (marks, rest) \<Rightarrow>
          (if length rest < length (c # cs) then remove_all p rest else c # remove_all p cs))"

text \<open>
  The patterns of \<open>get_top_yield_bonds\<close>. The code points are \<open>"\<close> 34, \<open>(\<close> 40,
  \<open>)\<close> 41, \<open><\<close> 60, \<open>>\<close> 62.
\<close>

definition table_pattern :: "rx list" where
  \<comment> \<open>\<open><table[^>]*>(.*?)</table>\<close>\<close>
  "table_pattern =
     [Lit (lit ''<table''), Star (\<lambda>c. c \<noteq> 62), Lit (lit ''>''), Mark, Lazy_Any, Mark,
      Lit (lit ''</table>'')]"

definition row_pattern :: "rx list" where
  \<comment> \<open>\<open><tr[^>]*>(.*?)</tr>\<close>\<close>
  "row_pattern =
     [Lit (lit ''<tr''), Star (\<lambda>c. c \<noteq> 62), Lit (lit ''>''), Mark, Lazy_Any, Mark,
      Lit (lit ''</tr>'')]"

definition header_pattern :: "rx list" where
  \<comment> \<open>\<open><th[^>]*>(.*?)</th>\<close>\<close>
  "header_pattern =
     [Lit (lit ''<th''), Star (\<lambda>c. c \<noteq> 62), Lit (lit ''>''), Mark, Lazy_Any, Mark,
      Lit (lit ''</th>'')]"

definition cell_pattern :: "rx list" where
  \<comment> \<open>\<open><td[^>]*>(.*?)</td>\<close>\<close>
  "cell_pattern =
     [Lit (lit ''<td''), Star (\<lambda>c. c \<noteq> 62), Lit (lit ''>''), Mark, Lazy_Any, Mark,
      Lit (lit ''</td>'')]"

definition name_pattern :: "rx list" where
  \<comment> \<open>\<open>title="[^"]*\s+\(([^)]+)\)"[^>]*>([^<]+)</a>\<close>\<close>
  "name_pattern =
     [Lit (lit ''title='' @ [34]), Star (\<lambda>c. c \<noteq> 34), Plus isspace, Lit (lit ''(''),
      Mark, Plus (\<lambda>c. c \<noteq> 41), Mark, Lit (lit '')'' @ [34]), Star (\<lambda>c. c \<noteq> 62),
      Lit (lit ''>''), Mark, Plus (\<lambda>c. c \<noteq> 60), Mark, Lit (lit ''</a>'')]"

definition tag_pattern :: "rx list" where
  \<comment> \<open>\<open><[^>]+>\<close>\<close>
  "tag_pattern = [Lit (lit ''<''), Plus (\<lambda>c. c \<noteq> 62), Lit (lit ''>'')]"

section \<open>Parsing numbers\<close>

text \<open>
  \<open>int(s)\<close> and \<open>float(s)\<close> on a \<open>str\<close>; \<open>None\<close> stands for \<open>ValueError\<close>. Both strip
  white space and accept a sign and digits with single underscores between them. Only
  the ASCII digits are modelled (Python also accepts the other Unicode decimal digits),
  and the limit that recent versions put on the number of digits \<open>int\<close> converts is
  not.
\<close>

definition is_digit :: "nat \<Rightarrow> bool" where
  "is_digit c = (48 \<le> c \<and> c \<le> 57)"

text \<open>
  A \<open>digitpart\<close> at the start of a text, \<open>digit (["_"] digit)*\<close>: its digits and the
  text after it; \<open>None\<close> when the text does not start with a digit.
\<close>

fun more_digits :: "str \<Rightarrow> str \<times> str" where
  "more_digits [] = ([], [])"
| "more_digits [c] = (if is_digit c then ([c], []) else ([], [c]))"
| "more_digits (c # d # cs) =
     (if is_digit c then (case more_digits (d # cs) of (ds, rest) \<Rightarrow> (c # ds, rest))
      else if c = 95 \<and> is_digit d then more_digits (d # cs)
      else ([], c # d # cs))"

definition digitpart :: "str \<Rightarrow> (str \<times> str) option" where
  "digitpart s =
     (case s of [] \<Rightarrow> None | c # cs \<Rightarrow> if is_digit c then Some (more_digits s) else None)"

definition digits_value :: "str \<Rightarrow> int" where
  "digits_value ds = foldl (\<lambda>acc c. 10 * acc + (int c - 48)) 0 ds"

text \<open>A sign at the start of a text: \<open>+\<close> 43, \<open>-\<close> 45.\<close>

definition sign_of :: "str \<Rightarrow> bool \<times> str" where
  "sign_of s =
     (case s of
        [] \<Rightarrow> (False, [])
      | c # cs \<Rightarrow> if c = 45 then (True, cs) else if c = 43 then (False, cs) else (False, s))"

definition py_int :: "str \<Rightarrow> int option" where
  "py_int s =
     (case sign_of (strip s) of
        (neg, t) \<Rightarrow>
          (case digitpart t of
             Some (ds, []) \<Rightarrow> Some (if neg then - digits_value ds else digits_value ds)
           | _ \<Rightarrow> None))"

text \<open>
  Rounding a number to the nearest double, ties to even: 53 significant bits, the
  least exponent -1022 (below it the spacing stays \<open>2^-1074\<close>), and an infinity from
  \<open>2^1024\<close> on.
\<close>

fun bit_length :: "int \<Rightarrow> int" where
  "bit_length n = (if n \<le> 0 then 0 else 1 + bit_length (n div 2))"

declare bit_length.simps [simp del]

definition pow2 :: "int \<Rightarrow> real" where
  "pow2 e = (if 0 \<le> e then 2 ^ nat e else 1 / 2 ^ nat (- e))"

definition floor_log2 :: "real \<Rightarrow> int" where
  "floor_log2 a = (if 1 \<le> a then bit_length \<lfloor>a\<rfloor> - 1 else - bit_length (\<lceil>1 / a\<rceil> - 1))"

definition round_double :: "real \<Rightarrow> pyfloat" where
  "round_double v =
     (if v = 0 then Fin 0
      else
        (let a = \<bar>v\<bar>;
             quantum = pow2 (max (floor_log2 a) (- 1022) - 52);
             r = of_int (round_half_even (a / quantum)) * quantum
         in if pow2 1024 \<le> r then (if 0 < v then PInf else NInf)
            else Fin (if 0 < v then r else - r)))"

text \<open>
  \<open>float(s)\<close>: after the sign, \<open>inf\<close>, \<open>infinity\<close> or \<open>nan\<close> in any case, or
  \<open>digitpart ["." [digitpart]] | "." digitpart\<close> with an optional exponent
  \<open>("e" | "E") [sign] digitpart\<close>. Too large a number gives an infinity, not an error.
\<close>

definition lower :: "str \<Rightarrow> str" where
  "lower s = map (\<lambda>c. if 65 \<le> c \<and> c \<le> 90 then c + 32 else c) s"

text \<open>The mantissa: its digits, the number of them after the point, and the rest.\<close>

definition mantissa :: "str \<Rightarrow> (str \<times> nat \<times> str) option" where
  "mantissa s =
     (case digitpart s of
        Some (ip, rest) \<Rightarrow>
          (case rest of
             c # cs \<Rightarrow>
               (if c = 46
                then (case digitpart cs of
                        Some (fp, rest') \<Rightarrow> Some (ip @ fp, length fp, rest')
                      | None \<Rightarrow> Some (ip, 0, cs))
                else Some (ip, 0, rest))
           | [] \<Rightarrow> Some (ip, 0, []))
      | None \<Rightarrow>
          (case s of
             c # cs \<Rightarrow>
               (if c = 46
                then (case digitpart cs of
                        Some (fp, rest') \<Rightarrow> Some (fp, length fp, rest')
                      | None \<Rightarrow> None)
                else None)
           | [] \<Rightarrow> None))"

text \<open>The exponent after the mantissa; the text must end with it.\<close>

definition exponent :: "str \<Rightarrow> int option" where
  "exponent s =
     (case s of
        [] \<Rightarrow> Some 0
      | c # cs \<Rightarrow>
          (if c = 101 \<or> c = 69
           then (case sign_of cs of
                   (neg, t) \<Rightarrow>
                     (case digitpart t of
                        Some (ds, []) \<Rightarrow>
                          Some (if neg then - digits_value ds else digits_value ds)
                      | _ \<Rightarrow> None))
           else None))"

definition pow10 :: "int \<Rightarrow> real" where
  "pow10 e = (if 0 \<le> e then 10 ^ nat e else 1 / 10 ^ nat (- e))"

definition py_float :: "str \<Rightarrow> pyfloat option" where
  "py_float s =
     (case sign_of (strip s) of
        (neg, t) \<Rightarrow>
          (if lower t = lit ''inf'' \<or> lower t = lit ''infinity''
           then Some (if neg then NInf else PInf)
           else if lower t = lit ''nan'' then Some NaN
           else
             (case mantissa t of
                None \<Rightarrow> None
              | Some (ds, k, rest) \<Rightarrow>
                  (case exponent rest of
                     None \<Rightarrow> None
                   | Some e \<Rightarrow>
                       Some (round_double
                         ((if neg then - 1 else 1) * of_int (digits_value ds)
                            * pow10 (e - int k)))))))"

section \<open>Dates\<close>

text \<open>
  \<open>datetime.date(year, month, day)\<close>: the arguments are converted to C \<open>int\<close> first,
  which raises \<open>OverflowError\<close> outside 32 bits; then the date must exist, or
  \<open>ValueError\<close> is raised. \<open>toordinal\<close> numbers the days from 0001-01-01, so the
  difference of two ordinals is \<open>(d1 - d2).days\<close>.
\<close>

datatype exn = ValueError | OverflowError

record date =
  year :: int
  month :: int
  day :: int

definition is_leap :: "int \<Rightarrow> bool" where
  "is_leap y = (y mod 4 = 0 \<and> (y mod 100 \<noteq> 0 \<or> y mod 400 = 0))"

definition days_in_month :: "int \<Rightarrow> int \<Rightarrow> int" where
  "days_in_month y m =
     (if m = 2 then (if is_leap y then 29 else 28)
      else if m = 4 \<or> m = 6 \<or> m = 9 \<or> m = 11 then 30 else 31)"

definition days_before_year :: "int \<Rightarrow> int" where
  "days_before_year y = (y - 1) * 365 + (y - 1) div 4 - (y - 1) div 100 + (y - 1) div 400"

text \<open>The days of a year before a month, for \<open>1 \<le> m \<le> 12\<close>, as \<open>datetime\<close> tabulates them.\<close>

definition days_before_month :: "int \<Rightarrow> int \<Rightarrow> int" where
  "days_before_month y m =
     [0, 31, 59, 90, 120, 151, 181, 212, 243, 273, 304, 334] ! nat (m - 1)
     + (if 2 < m \<and> is_leap y then 1 else 0)"

definition toordinal :: "date \<Rightarrow> int" where
  "toordinal d = days_before_year (year d) + days_before_month (year d) (month d) + day d"

definition in_c_int :: "int \<Rightarrow> bool" where
  "in_c_int x = (- 2147483648 \<le> x \<and> x \<le> 2147483647)"

definition py_date :: "int \<Rightarrow> int \<Rightarrow> int \<Rightarrow> exn + date" where
  "py_date y m d =
     (if \<not> in_c_int y \<or> \<not> in_c_int m \<or> \<not> in_c_int d then Inl OverflowError
      else if y < 1 \<or> 9999 < y \<or> m < 1 \<or> 12 < m \<or> d < 1 \<or> days_in_month y m < d
      then Inl ValueError
      else Inr \<lparr>year = y, month = m, day = d\<rparr>)"

section \<open>Extraction (top_bonds.py, get_top_yield_bonds, lines 41-210)\<close>

text \<open>
  The markers, as code points: \<open>yield_marker\<close> is the six letters U+0414 U+043E U+0445
  U+043E U+0434 U+043D ("Dokhodn"), \<open>rating_marker\<close> the seven letters of "Reiting",
  \<open>name_marker\<close> the three of "Imya", \<open>maturity_marker\<close> the six characters of
  "Let do" and \<open>offer_marker\<close> the six letters of "Oferta".
\<close>

definition yield_marker :: str where
  "yield_marker = [1044, 1086, 1093, 1086, 1076, 1085]"

definition rating_marker :: str where
  "rating_marker = [1056, 1077, 1081, 1090, 1080, 1085, 1075]"

definition name_marker :: str where
  "name_marker = [1048, 1084, 1103]"

definition maturity_marker :: str where
  "maturity_marker = [1051, 1077, 1090, 32, 1076, 1086]"

definition offer_marker :: str where
  "offer_marker = [1054, 1092, 1077, 1088, 1090, 1072]"

text \<open>The five column indices found in the header row, \<open>None\<close> when no header matches.\<close>

record header_idx =
  name_idx :: "nat option"
  ytm_idx :: "nat option"
  rating_idx :: "nat option"
  maturity_idx :: "nat option"
  offer_date_idx :: "nat option"

definition resolve_headers :: "str list \<Rightarrow> header_idx" where
  "resolve_headers headers =
     \<lparr>name_idx = first_index (contains name_marker) headers,
      ytm_idx = first_index (contains yield_marker) headers,
      rating_idx = first_index (contains rating_marker) headers,
      maturity_idx = first_index (contains maturity_marker) headers,
      offer_date_idx = first_index (contains offer_marker) headers\<rparr>"

text \<open>
  \<open>max(filter(None, [name_idx, ytm_idx, rating_idx, maturity_idx]))\<close>: \<open>filter(None, _)\<close>
  drops every false value, the index 0 as well as \<open>None\<close>, and \<open>max\<close> of nothing raises
  \<open>ValueError\<close>. The offer-date index is not in the list.
\<close>

definition truthy_indices :: "header_idx \<Rightarrow> nat list" where
  "truthy_indices h =
     concat (map (\<lambda>idx. case idx of None \<Rightarrow> [] | Some i \<Rightarrow> if i = 0 then [] else [i])
       [name_idx h, ytm_idx h, rating_idx h, maturity_idx h])"

definition max_index :: "header_idx \<Rightarrow> exn + nat" where
  "max_index h =
     (case truthy_indices h of [] \<Rightarrow> Inl ValueError | i # rest \<Rightarrow> Inr (fold max rest i))"

text \<open>\<open>cells[idx].strip() if idx is not None and idx < len(cells) else default\<close>.\<close>

definition cell_or :: "nat option \<Rightarrow> str list \<Rightarrow> str \<Rightarrow> str" where
  "cell_or idx cells dflt =
     (case idx of
        None \<Rightarrow> dflt
      | Some i \<Rightarrow> if i < length cells then strip (cells ! i) else dflt)"

text \<open>Lines 119-127: ISIN and name from the link in the name cell, or the plain text.\<close>

definition isin_and_name :: "str \<Rightarrow> str \<times> str" where
  "isin_and_name name_html =
     (case rsearch name_pattern name_html of
        Some (marks, rest) \<Rightarrow> (group1 marks, group2 marks)
      | None \<Rightarrow> (NA, strip (remove_all tag_pattern name_html)))"

text \<open>Lines 129-135: the yield, 0.0 when \<open>float\<close> raises \<open>ValueError\<close>.\<close>

definition parse_yield :: "str \<Rightarrow> pyfloat" where
  "parse_yield cell =
     (case py_float (strip (replace 44 (lit ''.'') (replace 37 [] cell))) of
        Some ytm \<Rightarrow> ytm
      | None \<Rightarrow> Fin 0)"

text \<open>Lines 140-147: the text shown for the years to maturity.\<close>

definition parse_maturity :: "str \<Rightarrow> str" where
  "parse_maturity maturity_text =
     (case py_float (replace 44 (lit ''.'') maturity_text) of
        Some maturity \<Rightarrow> fmt_fixed 1 maturity @ lit '' years''
      | None \<Rightarrow> NA)"

text \<open>
  Line 162-168: \<open>day, month, year = map(int, offer_date.split('.'))\<close>, a year below 100
  moved into the 2000s, then \<open>datetime.date(year, month, day)\<close>. Anything but exactly
  three parts that \<open>int\<close> accepts is a \<open>ValueError\<close>.
\<close>

definition parse_dmy :: "str \<Rightarrow> exn + date" where
  "parse_dmy offer_date =
     (case map py_int (split 46 offer_date) of
        [Some d, Some m, Some y] \<Rightarrow> py_date (if y < 100 then y + 2000 else y) m d
      | _ \<Rightarrow> Inl ValueError)"

text \<open>
  Lines 157-190, from the stripped text of the offer cell: the offer date to store and
  the years to the offer. A \<open>ValueError\<close> is caught and leaves the text as it is; an
  \<open>OverflowError\<close> is not among the caught exceptions and leaves the function.
\<close>

definition offer_of_text :: "date \<Rightarrow> str \<Rightarrow> exn + (str \<times> pyfloat option)" where
  "offer_of_text today offer_date =
     (case
        (if offer_date \<noteq> [] \<and> offer_date \<noteq> NA \<and> offer_date \<noteq> lit ''-''
         then
           (case parse_dmy offer_date of
              Inr offer_date_obj \<Rightarrow>
                (let days_to_offer = toordinal offer_date_obj - toordinal today
                 in if 0 < days_to_offer
                    then Inr (offer_date, Some (round_double (of_int days_to_offer / 365)))
                    else Inr (NA, None))
            | Inl ValueError \<Rightarrow> Inr (offer_date, None)
            | Inl OverflowError \<Rightarrow> Inl OverflowError)
         else if offer_date = lit ''-'' then Inr (NA, None)
         else Inr (offer_date, None))
      of
        Inl e \<Rightarrow> Inl e
      | Inr (shown, years_to_offer) \<Rightarrow>
          Inr (if shown = [] then NA else shown, years_to_offer))"

text \<open>
  Lines 152-155: the text of the offer cell with the tags removed, when the column exists
  and the row reaches it.
\<close>

definition offer_text :: "header_idx \<Rightarrow> str list \<Rightarrow> str option" where
  "offer_text h cells =
     (case offer_date_idx h of
        None \<Rightarrow> None
      | Some i \<Rightarrow>
          if i < length cells then Some (strip (remove_all tag_pattern (strip (cells ! i))))
          else None)"

text \<open>Lines 149-190: without an offer cell the date is \<open>N/A\<close> and there are no years.\<close>

definition offer_fields :: "date \<Rightarrow> header_idx \<Rightarrow> str list \<Rightarrow> exn + (str \<times> pyfloat option)" where
  "offer_fields today h cells =
     (case offer_text h cells of
        None \<Rightarrow> Inr (NA, None)
      | Some offer_date \<Rightarrow> offer_of_text today offer_date)"

text \<open>Lines 116-208: the record of one row that has enough cells.\<close>

definition parse_row :: "date \<Rightarrow> header_idx \<Rightarrow> str list \<Rightarrow> exn + bond" where
  "parse_row today h cells =
     (case offer_fields today h cells of
        Inl e \<Rightarrow> Inl e
      | Inr (offer_date, years_to_offer) \<Rightarrow>
          Inr \<lparr>ISIN = fst (isin_and_name (cell_or (name_idx h) cells [])),
               Name = snd (isin_and_name (cell_or (name_idx h) cells [])),
               Yield_to_Maturity = parse_yield (cell_or (ytm_idx h) cells (lit ''0'')),
               Rating = cell_or (rating_idx h) cells NA,
               Maturity = parse_maturity (cell_or (maturity_idx h) cells []),
               Offer_Date = offer_date,
               Years_to_Offer = years_to_offer,
               Years_to_Offer_Str =
                 map_option (\<lambda>y. fmt_fixed 1 y @ lit '' years'') years_to_offer\<rparr>)"

text \<open>
  Lines 103-114 and 210, the loop over the rows after the header row, each row given by
  its cells. An exception in a row ends the loop and the records built so far are lost
  with it.
\<close>

fun extract_rows :: "date \<Rightarrow> header_idx \<Rightarrow> str list list \<Rightarrow> exn + bond list" where
  "extract_rows today h [] = Inr []"
| "extract_rows today h (cells # rows) =
     (case max_index h of
        Inl e \<Rightarrow> Inl e
      | Inr m \<Rightarrow>
          if length cells \<le> m then extract_rows today h rows
          else
            (case parse_row today h cells of
               Inl e \<Rightarrow> Inl e
             | Inr bond \<Rightarrow>
                 (case extract_rows today h rows of
                    Inl e \<Rightarrow> Inl e
                  | Inr bonds_list \<Rightarrow> Inr (bond # bonds_list))))"

text \<open>
  Lines 41-210. The page text is a parameter, and so is today's date. Each way of
  giving up is a value; \<open>Uncaught e\<close> is an exception that reaches the handler at the
  end of the function. The caller sees \<open>None\<close> for all of them.
\<close>

datatype failure =
  No_Tables | No_Bonds_Table | No_Header_Row | Missing_Required_Column | Uncaught exn

text \<open>Lines 49-55: the first table whose text has both markers.\<close>

definition select_table :: "str list \<Rightarrow> str option" where
  "select_table tables =
     find (\<lambda>table. contains yield_marker table \<and> contains rating_marker table) tables"

text \<open>Lines 62-69: the inside of the first row of the table.\<close>

definition header_row :: "str \<Rightarrow> str option" where
  "header_row table_content =
     (case rsearch row_pattern table_content of
        None \<Rightarrow> None
      | Some (marks, rest) \<Rightarrow> Some (group1 marks))"

text \<open>Lines 70-85: the header cells, stripped, and the column indices found in them.\<close>

definition header_indices :: "str \<Rightarrow> header_idx" where
  "header_indices header = resolve_headers (map strip (findall header_pattern header))"

text \<open>Lines 103-110: the cells of each row but the first.\<close>

definition data_rows :: "str \<Rightarrow> str list list" where
  "data_rows table_content =
     map (findall cell_pattern) (tl (findall row_pattern table_content))"

definition extract_bonds :: "date \<Rightarrow> str \<Rightarrow> failure + bond list" where
  "extract_bonds today html_content =
     (if findall table_pattern html_content = [] then Inl No_Tables
      else
        (case select_table (findall table_pattern html_content) of
           None \<Rightarrow> Inl No_Bonds_Table
         | Some table_content \<Rightarrow>
             (case header_row table_content of
                None \<Rightarrow> Inl No_Header_Row
              | Some header \<Rightarrow>
                  if ytm_idx (header_indices header) = None then Inl Missing_Required_Column
                  else
                    (case extract_rows today (header_indices header) (data_rows table_content) of
                       Inl e \<Rightarrow> Inl (Uncaught e)
                     | Inr bonds_list \<Rightarrow> Inr bonds_list))))"

text \<open>The whole function on a page that was fetched: extraction, then the ranking.\<close>

definition get_top_yield_bonds :: "date \<Rightarrow> str \<Rightarrow> int \<Rightarrow> bond list option" where
  "get_top_yield_bonds today html_content count =
     (case extract_bonds today html_content of
        Inl e \<Rightarrow> None
      | Inr bonds_list \<Rightarrow> Some (rank bonds_list count))"

text \<open>
  The row rule in the words of the specification: a row is kept when its cell count
  covers the largest resolved column index, the five semantic fields all counting.
\<close>

definition max_resolved_index :: "header_idx \<Rightarrow> nat" where
  "max_resolved_index h =
     fold max
       (concat (map (\<lambda>idx. case idx of None \<Rightarrow> [] | Some i \<Rightarrow> [i])
          [name_idx h, ytm_idx h, rating_idx h, maturity_idx h, offer_date_idx h])) 0"

section \<open>Sample data\<close>

definition mk_bond :: "str \<Rightarrow> pyfloat \<Rightarrow> bond" where
  "mk_bond i y =
     \<lparr>ISIN = i, Name = lit ''Bond'', Yield_to_Maturity = y, Rating = NA,
      Maturity = NA, Offer_Date = NA, Years_to_Offer = None, Years_to_Offer_Str = None\<rparr>"

definition bond_a :: bond where "bond_a = mk_bond (lit ''A'') (Fin 1)"
definition bond_b :: bond where "bond_b = mk_bond (lit ''B'') (Fin 2)"
definition bond_c :: bond where "bond_c = mk_bond (lit ''C'') (Fin 2)"
definition bond_d :: bond where "bond_d = mk_bond (lit ''D'') (Fin 3)"
definition bond_e :: bond where "bond_e = mk_bond (lit ''E'') (Fin 4)"
definition bond_nan :: bond where "bond_nan = mk_bond (lit ''N'') NaN"

text \<open>A cache filled at time 100 with five records, and a page that lists three bonds.\<close>

definition cache_five :: cache where
  "cache_five = \<lparr>last_fetch_time = Some 100,
                 last_bonds_data = Some [bond_e, bond_d, bond_b, bond_c, bond_a]\<rparr>"

definition cache_empty :: cache where
  "cache_empty = \<lparr>last_fetch_time = None, last_bonds_data = None\<rparr>"

definition fetch_three :: "int \<Rightarrow> fetch_outcome" where
  "fetch_three n = Returns (Some (rank [bond_a, bond_b, bond_d] n))"

definition fetch_fails :: "int \<Rightarrow> fetch_outcome" where
  "fetch_fails n = Returns None"

text \<open>A record with a future offer date.\<close>

definition bond_offer :: bond where
  "bond_offer =
     \<lparr>ISIN = lit ''RU000A0JX0J2'', Name = lit ''Alpha BO-5'',
      Yield_to_Maturity = Fin (25 / 2), Rating = lit ''AA'', Maturity = lit ''2.5 years'',
      Offer_Date = lit ''31.12.30'', Years_to_Offer = Some (Fin 4),
      Years_to_Offer_Str = Some (lit ''4.0 years'')\<rparr>"

section \<open>Sample pages\<close>

definition today0 :: date where
  "today0 = \<lparr>year = 2024, month = 6, day = 1\<rparr>"

definition th :: "str \<Rightarrow> str" where
  "th s = lit ''<th>'' @ s @ lit ''</th>''"

definition td :: "string \<Rightarrow> str" where
  "td s = lit ''<td>'' @ lit s @ lit ''</td>''"

definition tr :: "str list \<Rightarrow> str" where
  "tr cells = lit ''<tr>'' @ concat cells @ lit ''</tr>''"

definition table :: "str \<Rightarrow> str" where
  "table content = lit ''<table>'' @ content @ lit ''</table>''"

text \<open>
  Yield, rating and offer-date columns. The first row has no offer cell, the second has
  an offer cell that is no date, the third a date in the future, the fourth a date in
  the past.
\<close>

definition offer_header :: str where
  "offer_header = th yield_marker @ th rating_marker @ th offer_marker"

definition offer_table :: str where
  "offer_table =
     tr [offer_header]
     @ tr [td ''10'', td ''AA'']
     @ tr [td ''9'', td ''A'', td ''soon'']
     @ tr [td ''8'', td ''B'', td ''31.12.24'']
     @ tr [td ''7'', td ''B'', td ''01.01.20'']"

definition page_offer :: str where
  "page_offer = table offer_table"

definition offer_idx :: header_idx where
  "offer_idx =
     \<lparr>name_idx = None, ytm_idx = Some 0, rating_idx = Some 1, maturity_idx = None,
      offer_date_idx = Some 2\<rparr>"

definition offer_cells :: "str list list" where
  "offer_cells =
     [[lit ''10'', lit ''AA''],
      [lit ''9'', lit ''A'', lit ''soon''],
      [lit ''8'', lit ''B'', lit ''31.12.24''],
      [lit ''7'', lit ''B'', lit ''01.01.20'']]"

text \<open>The records of the four rows.\<close>

definition offer_bond :: "real \<Rightarrow> string \<Rightarrow> str \<Rightarrow> bond" where
  "offer_bond y r d =
     \<lparr>ISIN = NA, Name = [], Yield_to_Maturity = Fin y, Rating = lit r, Maturity = NA,
      Offer_Date = d, Years_to_Offer = None, Years_to_Offer_Str = None\<rparr>"

definition offer_bonds :: "bond list" where
  "offer_bonds =
     [offer_bond 10 ''AA'' NA,
      offer_bond 9 ''A'' (lit ''soon''),
      (offer_bond 8 ''B'' (lit ''31.12.24''))
        \<lparr>Years_to_Offer := Some (Fin (5256256003451593 / 9007199254740992)),
         Years_to_Offer_Str := Some (lit ''0.6 years'')\<rparr>,
      offer_bond 7 ''B'' NA]"

text \<open>The yield column first and no name, rating or maturity column in the header.\<close>

definition page_yield_first :: str where
  "page_yield_first =
     table (tr [th yield_marker, th (lit ''Info'')]
            @ tr [td ''12,5%'', lit ''<td>'' @ rating_marker @ lit ''</td>''])"

text \<open>An offer date whose year does not fit a C \<open>int\<close>, in the second row.\<close>

definition page_big_year :: str where
  "page_big_year =
     table (tr [offer_header]
            @ tr [td ''10'', td ''AA'', td ''-'']
            @ tr [td ''9'', td ''A'', td ''1.1.2147483648''])"

text \<open>Yield cells that read \<open>inf\<close> and \<open>nan%\<close>.\<close>

definition page_inf :: str where
  "page_inf =
     table (tr [th yield_marker, th rating_marker]
            @ tr [td ''inf'', td ''AA'']
            @ tr [td ''nan%'', td ''A''])"

definition inf_bonds :: "bond list" where
  "inf_bonds =
     [(offer_bond 0 ''AA'' NA)\<lparr>Yield_to_Maturity := PInf\<rparr>,
      (offer_bond 0 ''A'' NA)\<lparr>Yield_to_Maturity := NaN\<rparr>]"

text \<open>A row under a header with a name and a yield column only; the name is no link.\<close>

definition plain_idx :: header_idx where
  "plain_idx =
     \<lparr>name_idx = Some 0, ytm_idx = Some 1, rating_idx = None, maturity_idx = None,
      offer_date_idx = None\<rparr>"

definition plain_cells :: "str list" where
  "plain_cells = [lit '' <b>Alpha</b> BO-5 '', lit ''12.50%'']"

definition plain_bond :: bond where
  "plain_bond =
     \<lparr>ISIN = NA, Name = lit ''Alpha BO-5'', Yield_to_Maturity = Fin (25 / 2), Rating = NA,
      Maturity = NA, Offer_Date = NA, Years_to_Offer = None, Years_to_Offer_Str = None\<rparr>"

section \<open>Properties of the ranking\<close>

lemma not_flt_iff: "\<not> is_nan a \<Longrightarrow> \<not> is_nan b \<Longrightarrow> (\<not> flt a b) = fle b a"
  by (cases a; cases b) (auto simp: is_nan_def)

lemma fle_trans: "fle a b \<Longrightarrow> fle b c \<Longrightarrow> fle a c"
  by (cases a; cases b; cases c) auto

lemma flt_imp_fle: "flt a b \<Longrightarrow> fle a b"
  by (cases a; cases b) auto

lemma flt_irrefl: "\<not> flt a a"
  by (cases a) auto

lemma set_insort_lt: "set (insort_lt key x ys) = insert x (set ys)"
  by (induction ys) auto

lemma length_insort_lt: "length (insort_lt key x ys) = Suc (length ys)"
  by (induction ys) auto

text \<open>The prefix is held in reverse, so it is non-increasing from its head.\<close>

lemma sorted_insort_lt:
  assumes "sorted_wrt (\<lambda>a b. fle (key b) (key a)) ys"
    and "\<not> is_nan (key x)" and "\<forall>y\<in>set ys. \<not> is_nan (key y)"
  shows "sorted_wrt (\<lambda>a b. fle (key b) (key a)) (insort_lt key x ys)"
  using assms
proof (induction ys)
  case Nil
  then show ?case by simp
next
  case (Cons y ys)
  show ?case
  proof (cases "flt (key x) (key y)")
    case True
    have xy: "fle (key x) (key y)" using True by (rule flt_imp_fle)
    have "sorted_wrt (\<lambda>a b. fle (key b) (key a)) (insort_lt key x ys)"
      using Cons by simp
    then show ?thesis using True xy Cons.prems(1) by (auto simp: set_insort_lt)
  next
    case False
    have yx: "fle (key y) (key x)"
      using False Cons.prems(2,3) by (simp add: not_flt_iff)
    have "\<forall>z\<in>set ys. fle (key z) (key x)"
      using Cons.prems(1) yx by (auto intro: fle_trans)
    then show ?thesis using False yx Cons.prems(1) by simp
  qed
qed

text \<open>An element never passes one of equal key, which is what makes the sort stable.\<close>

lemma filter_insort_lt:
  "filter (\<lambda>r. key r = v) (insort_lt key x ys)
     = (if key x = v then [x] else []) @ filter (\<lambda>r. key r = v) ys"
proof (induction ys)
  case Nil
  then show ?case by simp
next
  case (Cons y ys)
  show ?case
  proof (cases "flt (key x) (key y)")
    case True
    then have "key x \<noteq> key y" using flt_irrefl by metis
    then show ?thesis using True Cons by auto
  next
    case False
    then show ?thesis by simp
  qed
qed

lemma foldl_insort_sorted:
  assumes "sorted_wrt (\<lambda>a b. fle (key b) (key a)) acc"
    and "\<forall>y\<in>set acc. \<not> is_nan (key y)" and "\<forall>y\<in>set xs. \<not> is_nan (key y)"
  shows "sorted_wrt (\<lambda>a b. fle (key b) (key a)) (foldl (\<lambda>acc x. insort_lt key x acc) acc xs)"
  using assms
proof (induction xs arbitrary: acc)
  case Nil
  then show ?case by simp
next
  case (Cons x xs)
  have s: "sorted_wrt (\<lambda>a b. fle (key b) (key a)) (insort_lt key x acc)"
    using Cons.prems by (intro sorted_insort_lt) auto
  have n: "\<forall>y\<in>set (insort_lt key x acc). \<not> is_nan (key y)"
    using Cons.prems by (auto simp: set_insort_lt)
  have n': "\<forall>y\<in>set xs. \<not> is_nan (key y)" using Cons.prems by simp
  from Cons.IH [OF s n n'] show ?case by simp
qed

lemma filter_foldl_insort:
  "filter (\<lambda>r. key r = v) (foldl (\<lambda>acc x. insort_lt key x acc) acc xs)
     = rev (filter (\<lambda>r. key r = v) xs) @ filter (\<lambda>r. key r = v) acc"
  by (induction xs arbitrary: acc) (simp_all add: filter_insort_lt)

lemma length_foldl_insort:
  "length (foldl (\<lambda>acc x. insort_lt key x acc) acc xs) = length acc + length xs"
  by (induction xs arbitrary: acc) (auto simp: length_insort_lt)

lemma length_sorted_reverse: "length (sorted_reverse key xs) = length xs"
  by (simp add: sorted_reverse_def sort_stable_def length_foldl_insort)

lemma sorted_reverse_sorted:
  assumes "\<forall>y\<in>set xs. \<not> is_nan (key y)"
  shows "sorted_wrt (\<lambda>a b. fle (key b) (key a)) (sorted_reverse key xs)"
  unfolding sorted_reverse_def sort_stable_def rev_rev_ident
  using foldl_insort_sorted [of key "[]" "rev xs"] assms by simp

lemma sorted_reverse_stable:
  "filter (\<lambda>r. key r = v) (sorted_reverse key xs) = filter (\<lambda>r. key r = v) xs"
  by (simp add: sorted_reverse_def sort_stable_def filter_foldl_insort rev_filter)

lemmas sample_bonds =
  mk_bond_def bond_a_def bond_b_def bond_c_def bond_d_def bond_e_def bond_nan_def

lemmas rank_unfold = rank_def slice_to_def sorted_reverse_def sort_stable_def

text \<open>
  Claim C4, as stated, fails when a yield is NaN (the extractor produces one from a
  cell reading \<open>nan\<close>): the three records with yields 1, NaN, 2 come back in that order,
  the yield 1 ahead of the yield 2.
\<close>

theorem rank_nan_counterexample:
  "rank [bond_a, bond_nan, bond_b] 3 = [bond_a, bond_nan, bond_b]
   \<and> flt (Yield_to_Maturity bond_a) (Yield_to_Maturity bond_b)
   \<and> \<not> sorted_wrt (\<lambda>a b. fle (Yield_to_Maturity b) (Yield_to_Maturity a))
         (rank [bond_a, bond_nan, bond_b] 3)"
  by (simp add: rank_unfold sample_bonds)

text \<open>
  Claim C4, amended: for every list of records none of whose yields is NaN and every
  non-negative \<open>k\<close>, \<open>rank records k\<close> is sorted non-increasing by yield, has length
  \<open>min k (len records)\<close>, and keeps records of equal yield in their input order (for each
  yield, the records of that yield in the output are an initial part of those in the
  input, in the same order).
\<close>

theorem rank_sorted_stable:
  assumes "\<forall>b\<in>set records. \<not> is_nan (Yield_to_Maturity b)" and "0 \<le> k"
  shows "sorted_wrt (\<lambda>a b. fle (Yield_to_Maturity b) (Yield_to_Maturity a)) (rank records k)
       \<and> length (rank records k) = min (nat k) (length records)
       \<and> (\<forall>v. prefix (filter (\<lambda>b. Yield_to_Maturity b = v) (rank records k))
                     (filter (\<lambda>b. Yield_to_Maturity b = v) records))"
proof -
  let ?S = "sorted_reverse Yield_to_Maturity records"
  have r: "rank records k = take (nat k) ?S"
    using assms(2) by (simp add: rank_def slice_to_def)
  have 1: "sorted_wrt (\<lambda>a b. fle (Yield_to_Maturity b) (Yield_to_Maturity a)) (rank records k)"
    unfolding r using sorted_reverse_sorted [OF assms(1)] by (rule sorted_wrt_take)
  have 2: "length (rank records k) = min (nat k) (length records)"
    unfolding r by (simp add: length_sorted_reverse min.commute)
  have 3: "prefix (filter (\<lambda>b. Yield_to_Maturity b = v) (rank records k))
                     (filter (\<lambda>b. Yield_to_Maturity b = v) records)" for v
  proof -
    have "prefix (filter (\<lambda>b. Yield_to_Maturity b = v) (take (nat k) ?S))
                 (filter (\<lambda>b. Yield_to_Maturity b = v) ?S)"
      by (intro filter_mono_prefix take_is_prefix)
    then show ?thesis
      unfolding r by (simp add: sorted_reverse_stable)
  qed
  from 1 2 3 show ?thesis by blast
qed

theorem rank_sorted_stable_witness:
  "list_all (\<lambda>b. \<not> is_nan (Yield_to_Maturity b)) [bond_a, bond_b, bond_c, bond_d]
   \<and> (0::int) \<le> 3
   \<and> rank [bond_a, bond_b, bond_c, bond_d] 3 = [bond_d, bond_b, bond_c]
   \<and> sorted_wrt (\<lambda>a b. fle (Yield_to_Maturity b) (Yield_to_Maturity a))
        (rank [bond_a, bond_b, bond_c, bond_d] 3)
   \<and> length (rank [bond_a, bond_b, bond_c, bond_d] 3) = min (nat 3) (length [bond_a, bond_b, bond_c, bond_d])
   \<and> prefix (filter (\<lambda>b. Yield_to_Maturity b = Fin 2) (rank [bond_a, bond_b, bond_c, bond_d] 3))
            (filter (\<lambda>b. Yield_to_Maturity b = Fin 2) [bond_a, bond_b, bond_c, bond_d])"
proof -
  have h: "\<forall>b\<in>set [bond_a, bond_b, bond_c, bond_d]. \<not> is_nan (Yield_to_Maturity b)"
    by (simp add: sample_bonds is_nan_def)
  have e: "rank [bond_a, bond_b, bond_c, bond_d] 3 = [bond_d, bond_b, bond_c]"
    by (simp add: rank_unfold sample_bonds)
  have h': "list_all (\<lambda>b. \<not> is_nan (Yield_to_Maturity b)) [bond_a, bond_b, bond_c, bond_d]"
    by (simp add: sample_bonds is_nan_def)
  from rank_sorted_stable [OF h, of 3] h' e show ?thesis by simp
qed

text \<open>
  Claim C8, amended: the ranker does not clamp the count. For every count \<open>\<ge> 0\<close> it
  returns the first \<open>count\<close> entries of the sorted list (all of them when there are
  fewer); for a count \<open>< 0\<close> it raises nothing and returns the sorted list without its
  last \<open>-count\<close> entries.
\<close>

theorem rank_truncates:
  "(0 \<le> count \<longrightarrow>
      rank records count = take (nat count) (sorted_reverse Yield_to_Maturity records)
      \<and> length (rank records count) = min (nat count) (length records))
   \<and> (count < 0 \<longrightarrow>
      rank records count
        = take (length records - nat (- count)) (sorted_reverse Yield_to_Maturity records)
      \<and> length (rank records count) = length records - nat (- count))"
  by (simp add: rank_def slice_to_def length_sorted_reverse min.commute)

theorem rank_truncates_witness:
  "(0::int) \<le> 25 \<and> rank [bond_a, bond_b, bond_d] 25 = [bond_d, bond_b, bond_a]
   \<and> length (rank [bond_a, bond_b, bond_d] 25) = 3
   \<and> (- 2::int) < 0 \<and> length (rank [bond_a, bond_b, bond_d] (- 2)) = 1"
proof -
  have e: "sorted_reverse Yield_to_Maturity [bond_a, bond_b, bond_d] = [bond_d, bond_b, bond_a]"
    by (simp add: sorted_reverse_def sort_stable_def sample_bonds)
  from rank_truncates [of 25 "[bond_a, bond_b, bond_d]"]
       rank_truncates [of "- 2" "[bond_a, bond_b, bond_d]"] e
  show ?thesis by simp
qed

section \<open>Properties of the cache\<close>

lemma fetch_count_clamp: "fetch_count count = max 5 (min 20 (max count 5))"
  by (simp add: fetch_count_def)

lemma get_bonds_data_hit:
  "cache_hit c now count \<Longrightarrow>
     get_bonds_data fetcher now count c = (map_option (slice_to count) (last_bonds_data c), c, [])"
  by (simp add: get_bonds_data_def)

lemma get_bonds_data_calls:
  "snd (snd (get_bonds_data fetcher now count c))
     = (if cache_hit c now count then [] else [fetch_count count])"
  by (simp add: get_bonds_data_def split: fetch_outcome.split option.split)

lemma get_bonds_data_store:
  "\<not> cache_hit c now count \<Longrightarrow> fetcher (fetch_count count) = Returns (Some bonds) \<Longrightarrow> bonds \<noteq> [] \<Longrightarrow>
     get_bonds_data fetcher now count c
       = (Some (slice_to count bonds),
          \<lparr>last_fetch_time = Some now, last_bonds_data = Some bonds\<rparr>, [fetch_count count])"
  by (simp add: get_bonds_data_def)

lemma get_bonds_data_fail:
  "\<not> cache_hit c now count \<Longrightarrow>
   fetcher (fetch_count count) = Raises \<or> fetcher (fetch_count count) = Returns None
     \<or> fetcher (fetch_count count) = Returns (Some []) \<Longrightarrow>
   get_bonds_data fetcher now count c = (None, c, [fetch_count count])"
  by (auto simp: get_bonds_data_def)

lemma cache_hit_fresh:
  "t \<noteq> 0 \<Longrightarrow> bonds \<noteq> [] \<Longrightarrow> now - t < 3600 \<Longrightarrow>
   cache_hit \<lparr>last_fetch_time = Some t, last_bonds_data = Some bonds\<rparr> now count
     = (count \<le> int (length bonds))"
  by (simp add: cache_hit_def)

text \<open>
  Claim C3, amended. The first two parts are as the claim states them: the cached records,
  cut to \<open>count\<close>, are returned with no fetch exactly on a hit (an entry is present, its
  age is below 3600 seconds, it holds at least \<open>count\<close> records); otherwise there is
  exactly one fetch, of \<open>clamp(max(count,5), 5, 20)\<close> records, and a non-empty result
  replaces the entry and its first \<open>count\<close> records are returned. The two consequences
  hold under conditions only: two calls with the same count within the TTL fetch exactly
  once provided the first fetch brought at least \<open>count\<close> records; and a later call
  within the TTL after a hit fetches again exactly when its count exceeds the number of
  cached records (not whenever it is larger than the earlier count).
\<close>

theorem get_bonds_data_cache:
  "(cache_hit c now count \<longrightarrow>
       get_bonds_data fetcher now count c
         = (map_option (slice_to count) (last_bonds_data c), c, []))
   \<and> (\<not> cache_hit c now count \<longrightarrow>
       snd (snd (get_bonds_data fetcher now count c)) = [max 5 (min 20 (max count 5))]
       \<and> (fetcher (fetch_count count) = Returns (Some bonds) \<and> bonds \<noteq> [] \<longrightarrow>
            get_bonds_data fetcher now count c
              = (Some (slice_to count bonds),
                 \<lparr>last_fetch_time = Some now, last_bonds_data = Some bonds\<rparr>,
                 [fetch_count count])))
   \<and> (\<not> cache_hit c now count \<and> fetcher (fetch_count count) = Returns (Some bonds)
        \<and> bonds \<noteq> [] \<and> count \<le> int (length bonds) \<and> now \<noteq> 0 \<and> now' - now < 3600 \<longrightarrow>
       snd (snd (get_bonds_data fetcher now count c))
         @ snd (snd (get_bonds_data fetcher' now' count (fst (snd (get_bonds_data fetcher now count c)))))
         = [fetch_count count])
   \<and> (cache_hit c now count \<and> last_fetch_time c = Some t \<and> last_bonds_data c = Some cached
        \<and> now' - t < 3600 \<longrightarrow>
       snd (snd (get_bonds_data fetcher' now' count' (fst (snd (get_bonds_data fetcher now count c)))))
         = (if count' \<le> int (length cached) then [] else [fetch_count count']))"
proof -
  have 1: "cache_hit c now count \<longrightarrow>
       get_bonds_data fetcher now count c
         = (map_option (slice_to count) (last_bonds_data c), c, [])"
    by (simp add: get_bonds_data_hit)
  have 2: "\<not> cache_hit c now count \<longrightarrow>
       snd (snd (get_bonds_data fetcher now count c)) = [max 5 (min 20 (max count 5))]
       \<and> (fetcher (fetch_count count) = Returns (Some bonds) \<and> bonds \<noteq> [] \<longrightarrow>
            get_bonds_data fetcher now count c
              = (Some (slice_to count bonds),
                 \<lparr>last_fetch_time = Some now, last_bonds_data = Some bonds\<rparr>,
                 [fetch_count count]))"
    using get_bonds_data_store [of c now count fetcher bonds]
    by (simp add: get_bonds_data_calls fetch_count_clamp)
  have 3: "\<not> cache_hit c now count \<and> fetcher (fetch_count count) = Returns (Some bonds)
        \<and> bonds \<noteq> [] \<and> count \<le> int (length bonds) \<and> now \<noteq> 0 \<and> now' - now < 3600 \<longrightarrow>
       snd (snd (get_bonds_data fetcher now count c))
         @ snd (snd (get_bonds_data fetcher' now' count (fst (snd (get_bonds_data fetcher now count c)))))
         = [fetch_count count]"
  proof (intro impI, elim conjE)
    assume a: "\<not> cache_hit c now count" "fetcher (fetch_count count) = Returns (Some bonds)"
      "bonds \<noteq> []" "count \<le> int (length bonds)" "now \<noteq> 0" "now' - now < 3600"
    have s: "get_bonds_data fetcher now count c
       = (Some (slice_to count bonds),
          \<lparr>last_fetch_time = Some now, last_bonds_data = Some bonds\<rparr>, [fetch_count count])"
      using a(1-3) by (rule get_bonds_data_store)
    have h: "cache_hit \<lparr>last_fetch_time = Some now, last_bonds_data = Some bonds\<rparr> now' count"
      using a(3-6) by (simp add: cache_hit_fresh)
    show "snd (snd (get_bonds_data fetcher now count c))
         @ snd (snd (get_bonds_data fetcher' now' count (fst (snd (get_bonds_data fetcher now count c)))))
         = [fetch_count count]"
      using h by (simp add: s get_bonds_data_calls)
  qed
  have 4: "cache_hit c now count \<and> last_fetch_time c = Some t \<and> last_bonds_data c = Some cached
        \<and> now' - t < 3600 \<longrightarrow>
       snd (snd (get_bonds_data fetcher' now' count' (fst (snd (get_bonds_data fetcher now count c)))))
         = (if count' \<le> int (length cached) then [] else [fetch_count count'])"
    by (auto simp: get_bonds_data_hit get_bonds_data_calls cache_hit_def)
  from 1 2 3 4 show ?thesis by blast
qed

lemmas cache_samples = cache_five_def cache_empty_def fetch_three_def fetch_fails_def

lemma fetch_three_5: "fetch_three 5 = Returns (Some [bond_d, bond_b, bond_a])"
  by (simp add: fetch_three_def rank_unfold sample_bonds)

text \<open>
  Claim C3, as stated, fails in both of its consequences. With five records cached, a
  call for 3 is a hit and the following call for 4, a larger count, is a hit too: no
  re-fetch. And when the page lists three bonds only, two calls for 5 within the TTL
  fetch twice.
\<close>

theorem cache_counterexample:
  "snd (snd (get_bonds_data fetch_three 200 3 cache_five)) = []
   \<and> fst (snd (get_bonds_data fetch_three 200 3 cache_five)) = cache_five
   \<and> (3::int) < 4
   \<and> snd (snd (get_bonds_data fetch_three 300 4 cache_five)) = []
   \<and> snd (snd (get_bonds_data fetch_three 200 5 cache_empty)) = [5]
   \<and> snd (snd (get_bonds_data fetch_three 300 5
                  (fst (snd (get_bonds_data fetch_three 200 5 cache_empty))))) = [5]"
  by (simp add: get_bonds_data_def cache_hit_def fetch_count_def cache_five_def cache_empty_def
      fetch_three_5)


theorem get_bonds_data_cache_witness:
  "cache_hit cache_five 200 3
   \<and> get_bonds_data fetch_fails 200 3 cache_five = (Some [bond_e, bond_d, bond_b], cache_five, [])
   \<and> \<not> cache_hit cache_empty 200 3
   \<and> get_bonds_data fetch_three 200 3 cache_empty
       = (Some [bond_d, bond_b, bond_a],
          \<lparr>last_fetch_time = Some 200, last_bonds_data = Some [bond_d, bond_b, bond_a]\<rparr>, [5])
   \<and> snd (snd (get_bonds_data fetch_three 200 3 cache_empty))
       @ snd (snd (get_bonds_data fetch_fails 300 3
                    (fst (snd (get_bonds_data fetch_three 200 3 cache_empty))))) = [5]
   \<and> snd (snd (get_bonds_data fetch_fails 300 7
                  (fst (snd (get_bonds_data fetch_fails 200 3 cache_five))))) = [7]"
proof -
  have h: "cache_hit cache_five 200 3"
    by (simp add: cache_hit_def cache_five_def)
  have m: "\<not> cache_hit cache_empty 200 3"
    by (simp add: cache_hit_def cache_empty_def)
  have f: "fetch_three (fetch_count 3) = Returns (Some [bond_d, bond_b, bond_a])"
    by (simp add: fetch_count_def fetch_three_5)
  have t: "last_fetch_time cache_five = Some 100"
    and d: "last_bonds_data cache_five = Some [bond_e, bond_d, bond_b, bond_c, bond_a]"
    by (simp_all add: cache_five_def)
  from get_bonds_data_cache [of cache_five 200 3 fetch_fails "[]" 300 fetch_fails 100
         "[bond_e, bond_d, bond_b, bond_c, bond_a]" 7]
       get_bonds_data_cache [of cache_empty 200 3 fetch_three "[bond_d, bond_b, bond_a]" 300
         fetch_fails 0 "[]" 3]
       h m f t d
  show ?thesis by (auto simp: slice_to_def fetch_count_def)
qed

text \<open>
  Claim C10: when a fetch is made and it raises, returns \<open>None\<close> or returns no
  records, the call returns \<open>None\<close> and leaves both cache variables as they were; so
  a later call that is a hit on the old entry is still served from it, with no fetch.
\<close>

theorem failed_fetch_keeps_cache:
  assumes "\<not> cache_hit c now count"
    and "fetcher (fetch_count count) = Raises \<or> fetcher (fetch_count count) = Returns None
         \<or> fetcher (fetch_count count) = Returns (Some [])"
  shows "get_bonds_data fetcher now count c = (None, c, [fetch_count count])
       \<and> (cache_hit c now' count' \<longrightarrow>
            get_bonds_data fetcher' now' count' (fst (snd (get_bonds_data fetcher now count c)))
              = (map_option (slice_to count') (last_bonds_data c), c, []))"
  using get_bonds_data_fail [of c now count fetcher] assms by (simp add: get_bonds_data_hit)

theorem failed_fetch_keeps_cache_witness:
  "\<not> cache_hit cache_five 200 7
   \<and> fetch_fails (fetch_count 7) = Returns None
   \<and> get_bonds_data fetch_fails 200 7 cache_five = (None, cache_five, [7])
   \<and> cache_hit cache_five 300 4
   \<and> get_bonds_data fetch_fails 300 4 (fst (snd (get_bonds_data fetch_fails 200 7 cache_five)))
       = (Some [bond_e, bond_d, bond_b, bond_c], cache_five, [])"
proof -
  have m: "\<not> cache_hit cache_five 200 7"
    by (simp add: cache_hit_def cache_five_def)
  have f: "fetch_fails (fetch_count 7) = Returns None"
    by (simp add: fetch_fails_def)
  have h: "cache_hit cache_five 300 4"
    by (simp add: cache_hit_def cache_five_def)
  have d: "last_bonds_data cache_five = Some [bond_e, bond_d, bond_b, bond_c, bond_a]"
    by (simp add: cache_five_def)
  from failed_fetch_keeps_cache [OF m, of fetch_fails 300 4 fetch_fails] m f h d
  show ?thesis by (auto simp: slice_to_def fetch_count_def)
qed

section \<open>Properties of the plain table\<close>

lemma widen_mono: "widths c \<le> widen item col widths c"
  by (simp add: widen_def split: option.split)

lemma fold_widen_mono: "widths c \<le> fold (widen item) columns widths c"
proof (induction columns arbitrary: widths)
  case Nil
  show ?case by simp
next
  case (Cons col columns)
  have "widths c \<le> widen item col widths c" by (rule widen_mono)
  also have "\<dots> \<le> fold (widen item) columns (widen item col widths) c" by (rule Cons.IH)
  finally show ?case by simp
qed

lemma fold_widen_covers:
  "col \<in> set columns \<Longrightarrow> cell_text col item = Some s \<Longrightarrow>
     length s \<le> fold (widen item) columns widths col"
proof (induction columns arbitrary: widths)
  case Nil
  then show ?case by simp
next
  case (Cons c columns)
  show ?case
  proof (cases "c = col")
    case True
    have "length s \<le> widen item col widths col"
      using Cons.prems(2) by (simp add: widen_def)
    also have "\<dots> \<le> fold (widen item) columns (widen item col widths) col"
      by (rule fold_widen_mono)
    finally show ?thesis using True by simp
  next
    case False
    then show ?thesis using Cons by simp
  qed
qed

lemma fold_items_mono:
  "widths c \<le> fold (\<lambda>item widths. fold (widen item) columns widths) data widths c"
proof (induction data arbitrary: widths)
  case Nil
  show ?case by simp
next
  case (Cons item data)
  have "widths c \<le> fold (widen item) columns widths c" by (rule fold_widen_mono)
  also have "\<dots> \<le> fold (\<lambda>item widths. fold (widen item) columns widths) data
                      (fold (widen item) columns widths) c"
    by (rule Cons.IH)
  finally show ?case by simp
qed

lemma fold_items_covers:
  "item \<in> set data \<Longrightarrow> col \<in> set columns \<Longrightarrow> cell_text col item = Some s \<Longrightarrow>
     length s \<le> fold (\<lambda>item widths. fold (widen item) columns widths) data widths col"
proof (induction data arbitrary: widths)
  case Nil
  then show ?case by simp
next
  case (Cons i data)
  show ?case
  proof (cases "i = item")
    case True
    have "length s \<le> fold (widen item) columns widths col"
      using Cons.prems(2,3) by (rule fold_widen_covers)
    also have "\<dots> \<le> fold (\<lambda>item widths. fold (widen item) columns widths) data
                      (fold (widen item) columns widths) col"
      by (rule fold_items_mono)
    finally show ?thesis using True by simp
  next
    case False
    then show ?thesis using Cons by simp
  qed
qed

lemma label_ge_NA: "length NA \<le> length (label col)"
  by (cases col) (simp_all add: NA_def lit_def)

lemma width_ge_label: "length (label col) \<le> column_widths columns data col"
  unfolding column_widths_def by (rule fold_items_mono)

lemma width_ge_rendered:
  assumes "item \<in> set data" and "col \<in> set columns"
  shows "length (rendered col item) \<le> column_widths columns data col"
proof (cases "cell_text col item")
  case None
  have "length NA \<le> length (label col)" by (rule label_ge_NA)
  also have "\<dots> \<le> column_widths columns data col" by (rule width_ge_label)
  finally show ?thesis using None by (simp add: rendered_def)
next
  case (Some s)
  then show ?thesis
    using fold_items_covers [OF assms Some] by (simp add: rendered_def column_widths_def)
qed

text \<open>
  Claim C9: in a plain table over any list of columns (the seven of \<open>print_table\<close>, the
  five of the scheduler's report) the width computed for a column is at least the length of its
  header label and at least the length of every value rendered in it, a value absent
  from a record rendering as \<open>N/A\<close>; so every padded cell is exactly as wide as its
  column.
\<close>

theorem plain_table_widths:
  assumes "col \<in> set columns"
  shows "length (label col) \<le> column_widths columns data col
       \<and> (\<forall>item\<in>set data. length (rendered col item) \<le> column_widths columns data col
             \<and> length (ljust (column_widths columns data col) (rendered col item))
                 = column_widths columns data col)"
  using assms by (auto simp: width_ge_label width_ge_rendered ljust_def)


theorem plain_table_widths_witness:
  "Col_Years_to_Offer_Str \<in> set print_table_columns
   \<and> rendered Col_Years_to_Offer_Str bond_a = NA
   \<and> length (label Col_Years_to_Offer_Str)
        \<le> column_widths print_table_columns [bond_a, bond_offer] Col_Years_to_Offer_Str
   \<and> length (rendered Col_Years_to_Offer_Str bond_a)
        \<le> column_widths print_table_columns [bond_a, bond_offer] Col_Years_to_Offer_Str
   \<and> length (rendered Col_Years_to_Offer_Str bond_offer)
        \<le> column_widths print_table_columns [bond_a, bond_offer] Col_Years_to_Offer_Str
   \<and> Col_ISIN \<in> set scheduler_columns
   \<and> length (rendered Col_ISIN bond_offer)
        \<le> column_widths scheduler_columns [bond_a, bond_offer] Col_ISIN"
proof -
  have c: "Col_Years_to_Offer_Str \<in> set print_table_columns"
    by (simp add: print_table_columns_def)
  have c': "Col_ISIN \<in> set scheduler_columns"
    by (simp add: scheduler_columns_def)
  have r: "rendered Col_Years_to_Offer_Str bond_a = NA"
    by (simp add: rendered_def bond_a_def mk_bond_def)
  from plain_table_widths [of Col_Years_to_Offer_Str print_table_columns "[bond_a, bond_offer]"]
       plain_table_widths [of Col_ISIN scheduler_columns "[bond_a, bond_offer]"]
       c c' r
  show ?thesis by simp
qed

section \<open>Properties of the extraction\<close>

lemma fold_max_ge_init: "i \<le> fold max xs (i::nat)"
  by (induction xs arbitrary: i) (auto intro: order_trans [OF max.cobounded2])

lemma fold_max_ge_mem: "x \<in> set xs \<Longrightarrow> x \<le> fold max xs (i::nat)"
proof (induction xs arbitrary: i)
  case Nil
  then show ?case by simp
next
  case (Cons a xs)
  show ?case
  proof (cases "x = a")
    case True
    have "x \<le> max a i" using True by simp
    also have "\<dots> \<le> fold max xs (max a i)" by (rule fold_max_ge_init)
    finally show ?thesis by simp
  next
    case False
    then show ?thesis using Cons by simp
  qed
qed

lemma fold_max_mem: "fold max xs (i::nat) \<in> insert i (set xs)"
  by (induction xs arbitrary: i) (auto simp: max_def)

lemma max_index_ge: "max_index h = Inr m \<Longrightarrow> i \<in> set (truthy_indices h) \<Longrightarrow> i \<le> m"
  by (auto simp: max_index_def fold_max_ge_init fold_max_ge_mem split: list.splits)

lemma max_index_mem: "max_index h = Inr m \<Longrightarrow> m \<in> set (truthy_indices h)"
  using fold_max_mem by (fastforce simp: max_index_def split: list.splits)

lemma truthy_ytm: "ytm_idx h = Some y \<Longrightarrow> y \<noteq> 0 \<Longrightarrow> y \<in> set (truthy_indices h)"
  by (simp add: truthy_indices_def)

lemma ytm_covered:
  assumes "max_index h = Inr m" and "ytm_idx h = Some y" and "m < n"
  shows "y < n"
proof (cases "y = 0")
  case True
  then show ?thesis using assms(3) by simp
next
  case False
  then have "y \<le> m" using assms(1,2) by (intro max_index_ge truthy_ytm)
  then show ?thesis using assms(3) by simp
qed

lemma offer_of_text_exn: "offer_of_text today s = Inl e \<Longrightarrow> e = OverflowError"
  by (auto simp: offer_of_text_def Let_def split: if_splits sum.splits exn.splits prod.splits)

lemma parse_row_exn: "parse_row today h cells = Inl e \<Longrightarrow> e = OverflowError"
  by (auto simp: parse_row_def offer_fields_def dest: offer_of_text_exn
      split: sum.splits option.splits prod.splits)

lemma extract_rows_kept:
  assumes "max_index h = Inr m"
    and "\<forall>cells\<in>set rows. m < length cells \<longrightarrow> parse_row today h cells \<noteq> Inl OverflowError"
  shows "extract_rows today h rows
       = Inr (map (\<lambda>cells. projr (parse_row today h cells))
               (filter (\<lambda>cells. m < length cells) rows))"
  using assms(2)
proof (induction rows)
  case Nil
  show ?case by simp
next
  case (Cons cells rows)
  have ih: "extract_rows today h rows
       = Inr (map (\<lambda>cells. projr (parse_row today h cells))
               (filter (\<lambda>cells. m < length cells) rows))"
    using Cons by simp
  show ?case
  proof (cases "m < length cells")
    case False
    then show ?thesis using assms(1) ih by simp
  next
    case True
    then have "parse_row today h cells \<noteq> Inl OverflowError" using Cons.prems by simp
    then obtain b where b: "parse_row today h cells = Inr b"
      using parse_row_exn by (cases "parse_row today h cells") auto
    show ?thesis using True assms(1) ih b by simp
  qed
qed

lemma extract_rows_crash:
  "max_index h = Inl e \<Longrightarrow> rows \<noteq> [] \<Longrightarrow> extract_rows today h rows = Inl e"
  by (cases rows) simp_all

lemma extract_rows_mem:
  assumes "extract_rows today h rows = Inr bonds" and "b \<in> set bonds"
  shows "\<exists>cells m. cells \<in> set rows \<and> max_index h = Inr m \<and> m < length cells
           \<and> parse_row today h cells = Inr b"
  using assms
proof (induction rows arbitrary: bonds)
  case Nil
  then show ?case by simp
next
  case (Cons cells rows)
  from Cons.prems(1) obtain m where m: "max_index h = Inr m"
    by (cases "max_index h") auto
  show ?case
  proof (cases "length cells \<le> m")
    case True
    then have "extract_rows today h rows = Inr bonds" using Cons.prems(1) m by simp
    from Cons.IH [OF this Cons.prems(2)] show ?thesis by auto
  next
    case False
    from Cons.prems(1) m False obtain b0 rest where
      b0: "parse_row today h cells = Inr b0" and rest: "extract_rows today h rows = Inr rest"
      and bonds: "bonds = b0 # rest"
      by (auto split: sum.splits)
    show ?thesis
    proof (cases "b = b0")
      case True
      then show ?thesis using b0 m False by auto
    next
      case False
      then have "b \<in> set rest" using Cons.prems(2) bonds by simp
      from Cons.IH [OF rest this] show ?thesis by auto
    qed
  qed
qed

lemma extract_bonds_mem:
  assumes "extract_bonds today html = Inr bonds" and "b \<in> set bonds"
  shows "\<exists>t hdr cells m. select_table (findall table_pattern html) = Some t
           \<and> header_row t = Some hdr \<and> ytm_idx (header_indices hdr) \<noteq> None
           \<and> cells \<in> set (data_rows t)
           \<and> max_index (header_indices hdr) = Inr m \<and> m < length cells
           \<and> parse_row today (header_indices hdr) cells = Inr b"
proof -
  from assms(1) obtain t hdr where
    t: "select_table (findall table_pattern html) = Some t"
    and hdr: "header_row t = Some hdr"
    and y: "ytm_idx (header_indices hdr) \<noteq> None"
    and rows: "extract_rows today (header_indices hdr) (data_rows t) = Inr bonds"
    by (auto simp: extract_bonds_def split: if_splits option.splits sum.splits)
  from extract_rows_mem [OF rows assms(2)] t hdr y show ?thesis by blast
qed

lemma extract_bonds_kept:
  assumes "select_table (findall table_pattern html) = Some t"
    and "header_row t = Some hdr" and "ytm_idx (header_indices hdr) \<noteq> None"
    and "max_index (header_indices hdr) = Inr m"
    and "\<forall>cells\<in>set (data_rows t). m < length cells \<longrightarrow>
           parse_row today (header_indices hdr) cells \<noteq> Inl OverflowError"
  shows "extract_bonds today html
       = Inr (map (\<lambda>cells. projr (parse_row today (header_indices hdr) cells))
               (filter (\<lambda>cells. m < length cells) (data_rows t)))"
proof -
  have ne: "findall table_pattern html \<noteq> []"
    using assms(1) by (auto simp: select_table_def)
  show ?thesis
    using ne assms(1-3) extract_rows_kept [OF assms(4,5)]
    by (simp add: extract_bonds_def)
qed

subsection \<open>Evaluation\<close>

text \<open>
  The definitions to unfold when a function is run on a given text. The \<open>let\<close> of a
  definition is unfolded only once its bound value has been computed.
\<close>

lemmas page_defs = table_def tr_def td_def th_def lit_def offer_header_def
  yield_marker_def rating_marker_def name_marker_def maturity_marker_def offer_marker_def

lemmas rx_defs = table_pattern_def row_pattern_def header_pattern_def cell_pattern_def
  name_pattern_def tag_pattern_def findall.simps

lemmas text_defs = strip_def isspace_def replace_def NA_def

lemmas num_defs = py_float_def py_int_def sign_of_def digitpart_def is_digit_def
  digits_value_def mantissa_def exponent_def pow10_def lower_def round_double_def
  floor_log2_def pow2_def bit_length.simps round_half_even_def fmt_fixed_def digits_of.simps

lemmas date_defs = py_date_def in_c_int_def days_in_month_def is_leap_def toordinal_def
  days_before_year_def days_before_month_def today0_def

lemmas row_defs = max_index_def truthy_indices_def cell_or_def isin_and_name_def
  parse_yield_def parse_maturity_def parse_dmy_def offer_of_text_def offer_text_def
  offer_fields_def parse_row_def

lemmas extract_defs = extract_bonds_def select_table_def header_row_def header_indices_def
  resolve_headers_def data_rows_def

subsection \<open>The sample pages, run\<close>

lemma offer_tables: "findall table_pattern page_offer = [offer_table]"
  by (simp add: page_offer_def offer_table_def page_defs rx_defs)

lemma offer_select: "select_table [offer_table] = Some offer_table"
  by (simp add: select_table_def offer_table_def page_defs)

lemma offer_header_row: "header_row offer_table = Some offer_header"
  by (simp add: header_row_def offer_table_def page_defs rx_defs)

lemma offer_indices: "header_indices offer_header = offer_idx"
  by (simp add: header_indices_def resolve_headers_def offer_idx_def page_defs rx_defs text_defs)

lemma offer_rows: "data_rows offer_table = offer_cells"
  by (simp add: data_rows_def offer_table_def offer_cells_def page_defs rx_defs)

lemma offer_parse: "map (parse_row today0 offer_idx) offer_cells = map Inr offer_bonds"
  by (simp add: offer_cells_def offer_bonds_def offer_bond_def offer_idx_def
      row_defs rx_defs text_defs num_defs date_defs lit_def Let_def cong: let_weak_cong)

lemma offer_max_index: "max_index offer_idx = Inr 1"
  by (simp add: max_index_def truthy_indices_def offer_idx_def)

lemma page_offer_result: "extract_bonds today0 page_offer = Inr offer_bonds"
proof -
  have "extract_rows today0 offer_idx offer_cells = Inr offer_bonds"
    using offer_parse
    by (simp add: offer_cells_def offer_bonds_def offer_max_index)
  then show ?thesis
    by (simp add: extract_bonds_def offer_tables offer_select offer_header_row offer_indices
        offer_rows offer_idx_def)
qed

lemma page_inf_result: "extract_bonds today0 page_inf = Inr inf_bonds"
  by (simp add: page_inf_def inf_bonds_def offer_bond_def extract_defs page_defs row_defs
      rx_defs text_defs num_defs Let_def cong: let_weak_cong)

lemma page_yield_first_result: "extract_bonds today0 page_yield_first = Inl (Uncaught ValueError)"
  by (simp add: page_yield_first_def extract_defs page_defs row_defs rx_defs text_defs
      num_defs Let_def cong: let_weak_cong)

lemma page_big_year_result: "extract_bonds today0 page_big_year = Inl (Uncaught OverflowError)"
  by (simp add: page_big_year_def extract_defs page_defs row_defs rx_defs text_defs
      num_defs date_defs Let_def cong: let_weak_cong)

subsection \<open>The record of a row\<close>

lemma parse_row_fields:
  assumes "parse_row today h cells = Inr b"
  shows "ISIN b = fst (isin_and_name (cell_or (name_idx h) cells []))"
    and "Name b = snd (isin_and_name (cell_or (name_idx h) cells []))"
    and "Yield_to_Maturity b = parse_yield (cell_or (ytm_idx h) cells (lit ''0''))"
    and "Rating b = cell_or (rating_idx h) cells NA"
    and "offer_fields today h cells = Inr (Offer_Date b, Years_to_Offer b)"
  using assms by (auto simp: parse_row_def split: sum.splits prod.splits)

lemma uncaught_after_checks:
  assumes "extract_bonds today html = Inl (Uncaught e)"
  shows "\<exists>t hdr. select_table (findall table_pattern html) = Some t \<and> header_row t = Some hdr
           \<and> ytm_idx (header_indices hdr) \<noteq> None"
  using assms by (auto simp: extract_bonds_def split: if_splits option.splits sum.splits)

subsection \<open>Rows kept and rows skipped\<close>

text \<open>
  Claim C1, as stated, fails when the offer-date column is the last resolved column. On
  \<open>page_offer\<close> the largest resolved index is 2 (the offer date), the first data row has
  two cells and so does not cover it, and yet all four data rows give a record.
\<close>

theorem rows_counterexample:
  "max_resolved_index (header_indices offer_header) = 2
   \<and> length (data_rows offer_table ! 0) = 2
   \<and> length (data_rows offer_table) = 4
   \<and> extract_bonds today0 page_offer = Inr offer_bonds
   \<and> length offer_bonds = 4"
  by (simp add: page_offer_result offer_indices offer_rows max_resolved_index_def
      offer_idx_def offer_cells_def offer_bonds_def)

text \<open>
  Claim C1, amended. Let \<open>m\<close> be the largest non-zero index among the name, yield,
  rating and maturity columns found in the header (the offer-date column does not
  count). Provided there is such an index and no kept row has an offer date that the
  date constructor rejects with an overflow, the extraction emits, in order, one record
  per data row with more than \<open>m\<close> cells and skips the other rows without failing; so
  when all \<open>N\<close> data rows have more than \<open>m\<close> cells it returns exactly \<open>N\<close> records. A
  column that is absent from the header is not among the indices and drops no row.
\<close>

theorem rows_kept_or_skipped:
  assumes "select_table (findall table_pattern html) = Some t"
    and "header_row t = Some hdr"
    and "ytm_idx (header_indices hdr) \<noteq> None"
    and "max_index (header_indices hdr) = Inr m"
    and "\<forall>cells\<in>set (data_rows t). m < length cells \<longrightarrow>
           parse_row today (header_indices hdr) cells \<noteq> Inl OverflowError"
  shows "extract_bonds today html
           = Inr (map (\<lambda>cells. projr (parse_row today (header_indices hdr) cells))
                   (filter (\<lambda>cells. m < length cells) (data_rows t)))
       \<and> m \<in> set (truthy_indices (header_indices hdr))
       \<and> (\<forall>i\<in>set (truthy_indices (header_indices hdr)). i \<le> m)
       \<and> ((\<forall>cells\<in>set (data_rows t). m < length cells) \<longrightarrow>
             length (projr (extract_bonds today html)) = length (data_rows t))"
proof -
  have r: "extract_bonds today html
           = Inr (map (\<lambda>cells. projr (parse_row today (header_indices hdr) cells))
                   (filter (\<lambda>cells. m < length cells) (data_rows t)))"
    using assms by (rule extract_bonds_kept)
  have 1: "m \<in> set (truthy_indices (header_indices hdr))"
    using assms(4) by (rule max_index_mem)
  have 2: "\<forall>i\<in>set (truthy_indices (header_indices hdr)). i \<le> m"
    using assms(4) by (auto intro: max_index_ge)
  have 3: "(\<forall>cells\<in>set (data_rows t). m < length cells) \<longrightarrow>
             length (projr (extract_bonds today html)) = length (data_rows t)"
    by (simp add: r)
  from r 1 2 3 show ?thesis by blast
qed

theorem rows_kept_or_skipped_witness:
  "select_table (findall table_pattern page_offer) = Some offer_table
   \<and> header_row offer_table = Some offer_header
   \<and> ytm_idx (header_indices offer_header) = Some 0
   \<and> max_index (header_indices offer_header) = Inr 1
   \<and> list_all (\<lambda>cells. 1 < length cells) (data_rows offer_table)
   \<and> extract_bonds today0 page_offer
       = Inr (map (\<lambda>cells. projr (parse_row today0 (header_indices offer_header) cells))
               (filter (\<lambda>cells. 1 < length cells) (data_rows offer_table)))
   \<and> length (projr (extract_bonds today0 page_offer)) = length (data_rows offer_table)
   \<and> length (data_rows offer_table) = 4"
proof -
  have t: "select_table (findall table_pattern page_offer) = Some offer_table"
    by (simp add: offer_tables offer_select)
  have y: "ytm_idx (header_indices offer_header) = Some 0"
    by (simp add: offer_indices offer_idx_def)
  then have y': "ytm_idx (header_indices offer_header) \<noteq> None" by simp
  have m: "max_index (header_indices offer_header) = Inr 1"
    by (simp add: offer_indices offer_max_index)
  have p: "\<forall>cells\<in>set (data_rows offer_table). 1 < length cells \<longrightarrow>
           parse_row today0 (header_indices offer_header) cells \<noteq> Inl OverflowError"
    using offer_parse by (auto simp: offer_rows offer_indices offer_cells_def)
  have a: "list_all (\<lambda>cells. 1 < length cells) (data_rows offer_table)"
    by (simp add: offer_rows offer_cells_def)
  have n: "length (data_rows offer_table) = 4"
    by (simp add: offer_rows offer_cells_def)
  from rows_kept_or_skipped [OF t offer_header_row y' m p] t offer_header_row y m a n
  show ?thesis by (simp add: list_all_iff)
qed

subsection \<open>The yield of a record\<close>

text \<open>
  Claim C5, as stated, fails: \<open>float\<close> reads \<open>inf\<close> and \<open>nan\<close> (and overflows to an
  infinity), so a yield cell with such a text gives a record whose yield is not finite.
\<close>

theorem yield_counterexample:
  "extract_bonds today0 page_inf = Inr inf_bonds
   \<and> map Yield_to_Maturity inf_bonds = [PInf, NaN]
   \<and> list_all (\<lambda>b. \<not> is_finite (Yield_to_Maturity b)) inf_bonds"
  by (simp add: page_inf_result inf_bonds_def offer_bond_def is_finite_def)

text \<open>
  Claim C5, amended. Every record emitted by the extraction comes from a row that has
  its yield cell (a row without it is skipped, not emitted with 0.0), and its yield is
  never null: it is what \<open>float\<close> reads from the cell after the percent sign is removed
  and the comma turned into a point, and 0.0 when \<open>float\<close> rejects the text. The yield
  is finite unless \<open>float\<close> returns an infinity or a NaN for the text.
\<close>

theorem yield_of_record:
  assumes "extract_bonds today html = Inr bonds" and "b \<in> set bonds"
  shows "\<exists>t hdr cells y.
           select_table (findall table_pattern html) = Some t \<and> header_row t = Some hdr
           \<and> cells \<in> set (data_rows t)
           \<and> parse_row today (header_indices hdr) cells = Inr b
           \<and> ytm_idx (header_indices hdr) = Some y \<and> y < length cells
           \<and> Yield_to_Maturity b
               = (case py_float (strip (replace 44 (lit ''.'') (replace 37 [] (strip (cells ! y)))))
                  of Some ytm \<Rightarrow> ytm | None \<Rightarrow> Fin 0)
           \<and> (is_finite (Yield_to_Maturity b)
                \<or> py_float (strip (replace 44 (lit ''.'') (replace 37 [] (strip (cells ! y)))))
                    = Some (Yield_to_Maturity b))"
proof -
  from extract_bonds_mem [OF assms] obtain t hdr cells m where
    t: "select_table (findall table_pattern html) = Some t"
    and hdr: "header_row t = Some hdr"
    and y0: "ytm_idx (header_indices hdr) \<noteq> None"
    and cells: "cells \<in> set (data_rows t)"
    and m: "max_index (header_indices hdr) = Inr m" "m < length cells"
    and b: "parse_row today (header_indices hdr) cells = Inr b"
    by blast
  from y0 obtain y where y: "ytm_idx (header_indices hdr) = Some y" by auto
  have len: "y < length cells" by (rule ytm_covered [OF m(1) y m(2)])
  have v: "Yield_to_Maturity b
             = (case py_float (strip (replace 44 (lit ''.'') (replace 37 [] (strip (cells ! y)))))
                of Some ytm \<Rightarrow> ytm | None \<Rightarrow> Fin 0)"
    using parse_row_fields(3) [OF b] y len by (simp add: cell_or_def parse_yield_def)
  have f: "is_finite (Yield_to_Maturity b)
           \<or> py_float (strip (replace 44 (lit ''.'') (replace 37 [] (strip (cells ! y)))))
               = Some (Yield_to_Maturity b)"
    unfolding v by (simp add: is_finite_def split: option.split)
  from t hdr cells b y len v f show ?thesis by blast
qed

theorem yield_of_record_witness:
  "extract_bonds today0 page_offer = Inr offer_bonds
   \<and> offer_bond 10 ''AA'' NA \<in> set offer_bonds
   \<and> (\<exists>t hdr cells y.
           select_table (findall table_pattern page_offer) = Some t \<and> header_row t = Some hdr
           \<and> cells \<in> set (data_rows t)
           \<and> parse_row today0 (header_indices hdr) cells = Inr (offer_bond 10 ''AA'' NA)
           \<and> ytm_idx (header_indices hdr) = Some y \<and> y < length cells
           \<and> Yield_to_Maturity (offer_bond 10 ''AA'' NA)
               = (case py_float (strip (replace 44 (lit ''.'') (replace 37 [] (strip (cells ! y)))))
                  of Some ytm \<Rightarrow> ytm | None \<Rightarrow> Fin 0)
           \<and> (is_finite (Yield_to_Maturity (offer_bond 10 ''AA'' NA))
                \<or> py_float (strip (replace 44 (lit ''.'') (replace 37 [] (strip (cells ! y)))))
                    = Some (Yield_to_Maturity (offer_bond 10 ''AA'' NA))))"
proof -
  have mem: "offer_bond 10 ''AA'' NA \<in> set offer_bonds"
    by (simp add: offer_bonds_def)
  from yield_of_record [OF page_offer_result mem] page_offer_result mem
  show ?thesis by blast
qed

subsection \<open>ISIN, name and rating of a record\<close>

text \<open>
  Claim C7: for the record of a row, when the link pattern does not match the name cell
  the ISIN is \<open>N/A\<close> and the name is the cell's text with the tags removed, stripped;
  and when the header has no rating column the rating is \<open>N/A\<close>. (By
  \<open>extract_bonds_mem\<close> every record the extraction emits is the record of such a row.)
\<close>

theorem unknown_isin_and_rating:
  assumes "parse_row today h cells = Inr b"
  shows "(rsearch name_pattern (cell_or (name_idx h) cells []) = None \<longrightarrow>
            ISIN b = NA
            \<and> Name b = strip (remove_all tag_pattern (cell_or (name_idx h) cells [])))
       \<and> (rating_idx h = None \<longrightarrow> Rating b = NA)"
  using parse_row_fields(1,2,4) [OF assms]
  by (simp add: isin_and_name_def cell_or_def)


theorem unknown_isin_and_rating_witness:
  "parse_row today0 plain_idx plain_cells = Inr plain_bond
   \<and> rsearch name_pattern (cell_or (name_idx plain_idx) plain_cells []) = None
   \<and> ISIN plain_bond = NA
   \<and> Name plain_bond = strip (remove_all tag_pattern (cell_or (name_idx plain_idx) plain_cells []))
   \<and> Name plain_bond = lit ''Alpha BO-5''
   \<and> rating_idx plain_idx = None
   \<and> Rating plain_bond = NA"
proof -
  have p: "parse_row today0 plain_idx plain_cells = Inr plain_bond"
    by (simp add: plain_idx_def plain_cells_def plain_bond_def row_defs rx_defs text_defs
        num_defs lit_def Let_def cong: let_weak_cong)
  have n: "rsearch name_pattern (cell_or (name_idx plain_idx) plain_cells []) = None"
    by (simp add: plain_idx_def plain_cells_def cell_or_def rx_defs text_defs lit_def)
  have r: "rating_idx plain_idx = None"
    by (simp add: plain_idx_def)
  have a: "Name plain_bond = lit ''Alpha BO-5''"
    by (simp add: plain_bond_def)
  from unknown_isin_and_rating [OF p] p n r a show ?thesis by simp
qed

subsection \<open>The offer date of a record\<close>

lemma offer_of_text_cases:
  "offer_of_text today s =
     (if s = [] \<or> s = lit ''-'' \<or> s = NA then Inr (NA, None)
      else
        (case parse_dmy s of
           Inr d \<Rightarrow>
             if toordinal today < toordinal d
             then Inr (s, Some (round_double (of_int (toordinal d - toordinal today) / 365)))
             else Inr (NA, None)
         | Inl ValueError \<Rightarrow> Inr (s, None)
         | Inl OverflowError \<Rightarrow> Inl OverflowError))"
  by (auto simp: offer_of_text_def Let_def NA_def lit_def split: sum.splits exn.splits)

text \<open>
  Claim C2, as stated, fails for a cell that is no date: the handler of the parse error
  keeps the text, so the offer date of the record is the text and not the sentinel. On
  \<open>page_offer\<close> the second row has the offer cell \<open>soon\<close>.
\<close>

theorem offer_date_counterexample:
  "extract_bonds today0 page_offer = Inr offer_bonds
   \<and> offer_text offer_idx (offer_cells ! 1) = Some (lit ''soon'')
   \<and> parse_dmy (lit ''soon'') = Inl ValueError
   \<and> Offer_Date (offer_bonds ! 1) = lit ''soon''
   \<and> Offer_Date (offer_bonds ! 1) \<noteq> NA"
  by (simp add: page_offer_result offer_bonds_def offer_bond_def offer_cells_def offer_idx_def
      offer_text_def parse_dmy_def rx_defs text_defs py_int_def sign_of_def digitpart_def
      is_digit_def lit_def)

text \<open>
  Claim C2, amended. For the record of a row, with the offer cell's text taken without
  tags and stripped: when the column or the cell is missing, or the text is empty, a
  dash or \<open>N/A\<close>, the offer date is \<open>N/A\<close> and there are no years to the offer; when
  the text parses as day.month.year (a year below 100 read as 20xx) to a date after
  today, the offer date is the text and the years to the offer are the days between
  divided by 365.0; when it parses to today or a past date, the offer date is \<open>N/A\<close>
  with no years; and when it does not parse, the offer date keeps the text as it is,
  with no years.
\<close>

theorem offer_date_field:
  assumes "parse_row today h cells = Inr b"
  shows "(offer_text h cells = None \<or> offer_text h cells = Some []
            \<or> offer_text h cells = Some (lit ''-'') \<or> offer_text h cells = Some NA \<longrightarrow>
          Offer_Date b = NA \<and> Years_to_Offer b = None)
       \<and> (\<forall>s d. offer_text h cells = Some s \<and> s \<noteq> [] \<and> s \<noteq> lit ''-'' \<and> s \<noteq> NA
              \<and> parse_dmy s = Inr d \<longrightarrow>
            (toordinal today < toordinal d \<longrightarrow>
               Offer_Date b = s
               \<and> Years_to_Offer b
                   = Some (round_double (of_int (toordinal d - toordinal today) / 365)))
            \<and> (toordinal d \<le> toordinal today \<longrightarrow>
               Offer_Date b = NA \<and> Years_to_Offer b = None))
       \<and> (\<forall>s. offer_text h cells = Some s \<and> s \<noteq> [] \<and> s \<noteq> lit ''-'' \<and> s \<noteq> NA
              \<and> parse_dmy s = Inl ValueError \<longrightarrow>
            Offer_Date b = s \<and> Years_to_Offer b = None)
       \<and> (\<forall>s d m y. map py_int (split 46 s) = [Some d, Some m, Some y] \<longrightarrow>
            parse_dmy s = py_date (if y < 100 then y + 2000 else y) m d)"
proof -
  have f: "offer_fields today h cells = Inr (Offer_Date b, Years_to_Offer b)"
    using assms by (rule parse_row_fields(5))
  have 1: "offer_text h cells = None \<or> offer_text h cells = Some []
            \<or> offer_text h cells = Some (lit ''-'') \<or> offer_text h cells = Some NA \<longrightarrow>
          Offer_Date b = NA \<and> Years_to_Offer b = None"
    using f by (auto simp: offer_fields_def offer_of_text_cases)
  have 2: "\<forall>s d. offer_text h cells = Some s \<and> s \<noteq> [] \<and> s \<noteq> lit ''-'' \<and> s \<noteq> NA
              \<and> parse_dmy s = Inr d \<longrightarrow>
            (toordinal today < toordinal d \<longrightarrow>
               Offer_Date b = s
               \<and> Years_to_Offer b
                   = Some (round_double (of_int (toordinal d - toordinal today) / 365)))
            \<and> (toordinal d \<le> toordinal today \<longrightarrow>
               Offer_Date b = NA \<and> Years_to_Offer b = None)"
    using f by (auto simp: offer_fields_def offer_of_text_cases)
  have 3: "\<forall>s. offer_text h cells = Some s \<and> s \<noteq> [] \<and> s \<noteq> lit ''-'' \<and> s \<noteq> NA
              \<and> parse_dmy s = Inl ValueError \<longrightarrow>
            Offer_Date b = s \<and> Years_to_Offer b = None"
    using f by (auto simp: offer_fields_def offer_of_text_cases)
  have 4: "\<forall>s d m y. map py_int (split 46 s) = [Some d, Some m, Some y] \<longrightarrow>
            parse_dmy s = py_date (if y < 100 then y + 2000 else y) m d"
    by (simp add: parse_dmy_def)
  from 1 2 3 4 show ?thesis by blast
qed

theorem offer_date_field_witness:
  "parse_row today0 offer_idx (offer_cells ! 0) = Inr (offer_bonds ! 0)
   \<and> offer_text offer_idx (offer_cells ! 0) = None
   \<and> Offer_Date (offer_bonds ! 0) = NA \<and> Years_to_Offer (offer_bonds ! 0) = None
   \<and> parse_row today0 offer_idx (offer_cells ! 1) = Inr (offer_bonds ! 1)
   \<and> offer_text offer_idx (offer_cells ! 1) = Some (lit ''soon'')
   \<and> parse_dmy (lit ''soon'') = Inl ValueError
   \<and> Offer_Date (offer_bonds ! 1) = lit ''soon'' \<and> Years_to_Offer (offer_bonds ! 1) = None
   \<and> parse_row today0 offer_idx (offer_cells ! 2) = Inr (offer_bonds ! 2)
   \<and> offer_text offer_idx (offer_cells ! 2) = Some (lit ''31.12.24'')
   \<and> parse_dmy (lit ''31.12.24'') = Inr \<lparr>year = 2024, month = 12, day = 31\<rparr>
   \<and> toordinal today0 < toordinal \<lparr>year = 2024, month = 12, day = 31\<rparr>
   \<and> Offer_Date (offer_bonds ! 2) = lit ''31.12.24''
   \<and> Years_to_Offer (offer_bonds ! 2) = Some (round_double (213 / 365))
   \<and> parse_row today0 offer_idx (offer_cells ! 3) = Inr (offer_bonds ! 3)
   \<and> offer_text offer_idx (offer_cells ! 3) = Some (lit ''01.01.20'')
   \<and> parse_dmy (lit ''01.01.20'') = Inr \<lparr>year = 2020, month = 1, day = 1\<rparr>
   \<and> toordinal \<lparr>year = 2020, month = 1, day = 1\<rparr> \<le> toordinal today0
   \<and> Offer_Date (offer_bonds ! 3) = NA \<and> Years_to_Offer (offer_bonds ! 3) = None"
proof -
  have p: "parse_row today0 offer_idx (offer_cells ! 0) = Inr (offer_bonds ! 0)"
    "parse_row today0 offer_idx (offer_cells ! 1) = Inr (offer_bonds ! 1)"
    "parse_row today0 offer_idx (offer_cells ! 2) = Inr (offer_bonds ! 2)"
    "parse_row today0 offer_idx (offer_cells ! 3) = Inr (offer_bonds ! 3)"
    using offer_parse by (simp_all add: offer_cells_def offer_bonds_def)
  have t: "offer_text offer_idx (offer_cells ! 0) = None"
    "offer_text offer_idx (offer_cells ! 1) = Some (lit ''soon'')"
    "offer_text offer_idx (offer_cells ! 2) = Some (lit ''31.12.24'')"
    "offer_text offer_idx (offer_cells ! 3) = Some (lit ''01.01.20'')"
    by (simp_all add: offer_text_def offer_idx_def offer_cells_def rx_defs text_defs lit_def)
  have d: "parse_dmy (lit ''soon'') = Inl ValueError"
    "parse_dmy (lit ''31.12.24'') = Inr \<lparr>year = 2024, month = 12, day = 31\<rparr>"
    "parse_dmy (lit ''01.01.20'') = Inr \<lparr>year = 2020, month = 1, day = 1\<rparr>"
    by (simp_all add: parse_dmy_def py_int_def sign_of_def digitpart_def is_digit_def
        digits_value_def text_defs date_defs lit_def)
  have o: "toordinal \<lparr>year = 2024, month = 12, day = 31\<rparr> = 739251"
    "toordinal \<lparr>year = 2020, month = 1, day = 1\<rparr> = 737425"
    "toordinal today0 = 739038"
    by (simp_all add: date_defs)
  have n: "lit ''soon'' \<noteq> []" "lit ''soon'' \<noteq> lit ''-''" "lit ''soon'' \<noteq> NA"
    "lit ''31.12.24'' \<noteq> []" "lit ''31.12.24'' \<noteq> lit ''-''" "lit ''31.12.24'' \<noteq> NA"
    "lit ''01.01.20'' \<noteq> []" "lit ''01.01.20'' \<noteq> lit ''-''" "lit ''01.01.20'' \<noteq> NA"
    by (simp_all add: lit_def NA_def)
  from offer_date_field [OF p(1)] offer_date_field [OF p(2)] offer_date_field [OF p(3)]
       offer_date_field [OF p(4)] p t d o n
  show ?thesis by simp
qed

subsection \<open>Failures of the whole extraction\<close>

text \<open>
  Claim C6 against the code, at two pages that have a table with both markers and a
  yield column in its header. On \<open>page_yield_first\<close> the yield column is the first
  column and the header has no name, rating or maturity column: \<open>filter(None, _)\<close> drops
  the index 0 with the missing ones, \<open>max\<close> of nothing raises, and the call fails. On
  \<open>page_big_year\<close> the offer cell of the second row has a year beyond 32 bits:
  \<open>datetime.date\<close> raises \<open>OverflowError\<close>, which the handler of the date parse does
  not catch, and the call fails although the first row was built.
\<close>

theorem uncaught_failures:
  "extract_bonds today0 page_yield_first = Inl (Uncaught ValueError)
   \<and> get_top_yield_bonds today0 page_yield_first 5 = None
   \<and> extract_bonds today0 page_big_year = Inl (Uncaught OverflowError)
   \<and> get_top_yield_bonds today0 page_big_year 5 = None"
  by (simp add: page_yield_first_result page_big_year_result get_top_yield_bonds_def)

subsection \<open>A negative count\<close>

text \<open>
  Claim C8, as stated, fails for a negative count: the slice raises nothing. The ranking
  of three records with the count -1 is the sorted list without its last entry, and the
  whole function on \<open>page_offer\<close> returns three of the four records, not a failure.
\<close>

theorem rank_negative_counterexample:
  "rank [bond_a, bond_b, bond_d] (- 1) = [bond_d, bond_b]
   \<and> get_top_yield_bonds today0 page_offer (- 1) = Some (rank offer_bonds (- 1))
   \<and> length (rank offer_bonds (- 1)) = 3"
  by (simp add: get_top_yield_bonds_def page_offer_result rank_unfold sample_bonds
      offer_bonds_def offer_bond_def)

end
